theory Spec2Isabelle
  imports Main "HOL-Library.AList"
begin

section \<open>The CoLRev package registry and the prescreen operation\<close>

text \<open>
  A shallow embedding of \<^verbatim>\<open>colrev/env/package_manager.py\<close> (the type
  \<^verbatim>\<open>PackageEndpointType\<close> and the class \<^verbatim>\<open>PackageManager\<close>) and of
  \<^verbatim>\<open>Prescreen.main\<close> in \<^verbatim>\<open>colrev/ops/prescreen.py\<close>.
  Exceptions are values of the type \<open>error\<close>; a Python \<^verbatim>\<open>dict\<close> is an association
  list in insertion order, read with \<open>map_of\<close> and written with \<open>AList.update\<close>
  (which overwrites in place and appends a new key at the end, as a \<^verbatim>\<open>dict\<close> does).
\<close>

subsection \<open>Exceptions\<close>

datatype error =
    CoLRevException
  | MissingDependencyError
  | AttributeError
  | ModuleNotFoundError
  | KeyError
  | TypeError
  | ValueError
  | AssertionError
  | RuntimeError
  | Invalid
  | OtherError string

subsection \<open>Strings\<close>

text \<open>
  Strings are modelled over ASCII: a character is cased when it is a Latin letter.
  \<open>lower\<close> is \<^verbatim>\<open>str.lower\<close>, \<open>islower\<close> is \<^verbatim>\<open>str.islower\<close> (at least one cased
  character and no uppercase one), \<open>split\<close> is \<^verbatim>\<open>str.split(sep)\<close> for a separator
  of one character and \<open>rsplit1\<close> is \<^verbatim>\<open>str.rsplit(sep, 1)\<close>.
\<close>

definition is_upper :: "char \<Rightarrow> bool" where
  "is_upper c = (65 \<le> (of_char c :: nat) \<and> (of_char c :: nat) \<le> 90)"

definition is_lower :: "char \<Rightarrow> bool" where
  "is_lower c = (97 \<le> (of_char c :: nat) \<and> (of_char c :: nat) \<le> 122)"

definition lower_char :: "char \<Rightarrow> char" where
  "lower_char c = (if is_upper c then char_of ((of_char c :: nat) + 32) else c)"

definition lower :: "string \<Rightarrow> string" where
  "lower s = map lower_char s"

definition islower :: "string \<Rightarrow> bool" where
  "islower s = (list_ex is_lower s \<and> \<not> list_ex is_upper s)"

fun split :: "char \<Rightarrow> string \<Rightarrow> string list" where
  "split sep [] = [[]]"
| "split sep (c # cs) =
     (if c = sep then [] # split sep cs
      else (case split sep cs of
              [] \<Rightarrow> [[c]]
            | w # ws \<Rightarrow> (c # w) # ws))"

definition rsplit1 :: "char \<Rightarrow> string \<Rightarrow> string list" where
  "rsplit1 sep s =
     (if sep \<in> set s
      then [rev (tl (dropWhile (\<lambda>c. c \<noteq> sep) (rev s))),
            rev (takeWhile (\<lambda>c. c \<noteq> sep) (rev s))]
      else [s])"

subsection \<open>The stage types\<close>

datatype PackageEndpointType =
    review_type
  | load_conversion
  | search_source
  | prep
  | prep_man
  | dedupe
  | prescreen
  | pdf_get
  | pdf_get_man
  | pdf_prep
  | pdf_prep_man
  | screen
  | data

text \<open>Iterating over a Python \<^verbatim>\<open>Enum\<close> yields its members in definition order.\<close>

definition PackageEndpointType_members :: "PackageEndpointType list" where
  "PackageEndpointType_members =
     [review_type, load_conversion, search_source, prep, prep_man, dedupe, prescreen,
      pdf_get, pdf_get_man, pdf_prep, pdf_prep_man, screen, data]"

text \<open>The position of a member in the enumeration (the length of the list when absent).\<close>

fun position :: "'a list \<Rightarrow> 'a \<Rightarrow> nat" where
  "position [] x = 0"
| "position (y # ys) x = (if x = y then 0 else Suc (position ys x))"

text \<open>A list of stages is in enumeration order when the positions strictly increase.\<close>

definition in_enum_order :: "PackageEndpointType list \<Rightarrow> bool" where
  "in_enum_order stages =
     sorted_wrt (<) (map (position PackageEndpointType_members) stages)"

subsection \<open>\<^verbatim>\<open>Prescreen.main\<close>\<close>

text \<open>
  \<^verbatim>\<open>list.remove(x)\<close> deletes the first occurrence of \<open>x\<close> and raises
  \<^verbatim>\<open>ValueError\<close> when there is none.
\<close>

definition list_remove :: "'a list \<Rightarrow> 'a \<Rightarrow> error + 'a list" where
  "list_remove xs x = (if x \<in> set xs then Inr (remove1 x xs) else Inl ValueError)"

text \<open>
  What \<^verbatim>\<open>main\<close> does to its collaborators is recorded as a trace: loading the
  records of the dataset, and running one loaded prescreen endpoint (named by the key
  under which it was loaded) on a split.
\<close>

datatype event =
    LoadRecords
  | LogRun string
  | RunPrescreen string "string list"

text \<open>
  The collaborators of \<^verbatim>\<open>main\<close>: the records of the dataset, the endpoint names
  of the settings (\<^verbatim>\<open>settings.prescreen.prescreen_package_endpoints\<close>, each
  \<^verbatim>\<open>['endpoint']\<close>), the keys of the endpoints loaded at construction
  (\<^verbatim>\<open>self.prescreen_package_endpoints\<close>) and the effect of
  \<^verbatim>\<open>run_prescreen\<close> of the endpoint loaded under a key.
\<close>

record 'r prescreen_env =
  load_records_dict :: "'r"
  settings_endpoints :: "string list"
  loaded_endpoints :: "string list"
  run_prescreen :: "string \<Rightarrow> 'r \<Rightarrow> string list \<Rightarrow> error + 'r"

fun main_loop ::
  "'r prescreen_env \<Rightarrow> string list \<Rightarrow> 'r \<Rightarrow> string list \<Rightarrow> event list
    \<Rightarrow> event list \<times> (error + unit)" where
  "main_loop env parts records [] tr = (tr, Inr ())"
| "main_loop env parts records (name # rest) tr =
     (if name \<notin> set (loaded_endpoints env) then (tr @ [LogRun name], Inl KeyError)
      else (case run_prescreen env name records parts of
              Inl e \<Rightarrow> (tr @ [LogRun name, RunPrescreen name parts], Inl e)
            | Inr records' \<Rightarrow>
                main_loop env parts records' rest
                  (tr @ [LogRun name, RunPrescreen name parts])))"

definition main :: "'r prescreen_env \<Rightarrow> string \<Rightarrow> event list \<times> (error + unit)" where
  "main env split_str =
     (case (if split_str \<noteq> ''NA''
            then list_remove (split CHR '','' split_str) ''''
            else Inr [])
      of Inl e \<Rightarrow> ([], Inl e)
       | Inr parts \<Rightarrow>
           main_loop env parts (load_records_dict env) (settings_endpoints env)
             [LoadRecords])"

subsection \<open>Values, objects and the environment\<close>

text \<open>
  The values of the package index and of settings dictionaries (what JSON gives), with
  Python's truth value of each.
\<close>

datatype pyval = Str string | Bool bool | NoneVal | Dict "(string \<times> pyval) list"

type_synonym pydict = "(string \<times> pyval) list"

fun truthy :: "pyval \<Rightarrow> bool" where
  "truthy (Str s) = (s \<noteq> [])"
| "truthy (Bool b) = b"
| "truthy NoneVal = False"
| "truthy (Dict d) = (d \<noteq> [])"

text \<open>
  Modules, classes and whatever else \<^verbatim>\<open>importlib.import_module\<close> and
  \<^verbatim>\<open>getattr\<close> return are opaque objects; so are operations, the instances a
  constructor returns and the zope interfaces.
\<close>

datatype pyobj = PyObj string

datatype operation = Operation string

datatype pyinstance = Instance string

datatype interface =
    ReviewTypePackageInterface
  | LoadConversionPackageInterface
  | SearchSourcePackageInterface
  | PrepPackageInterface
  | PrepManPackageInterface
  | DedupePackageInterface
  | PrescreenPackageInterface
  | PDFGetPackageInterface
  | PDFGetManPackageInterface
  | PDFPrepPackageInterface
  | PDFPrepManPackageInterface
  | ScreenPackageInterface
  | DataPackageInterface

text \<open>A keyword argument of a constructor call: the operation, or a reference to a
  settings dictionary on the heap.\<close>

datatype arg = OperationArg operation | SettingsArg nat

text \<open>
  \<^verbatim>\<open>self.packages\<close>: for each stage type the index of its packages, from identifier
  to metadata (\<^verbatim>\<open>typing.Dict[str, typing.Dict[str, typing.Dict]]\<close>).
\<close>

type_synonym package_index = "(string \<times> pydict) list"

type_synonym registry = "(PackageEndpointType \<times> package_index) list"

text \<open>
  Everything outside the registry is a parameter: the packaged files
  (\<^verbatim>\<open>colrev.env.utils.get_package_file_content\<close>), the JSON parser (on the decoded
  file), the import system (a function of \<^verbatim>\<open>sys.path\<close>, the module name and the
  anchor package), attribute lookup, \<^verbatim>\<open>__doc__\<close>, the file system of the current
  directory, the constructors of the endpoint classes and zope's \<^verbatim>\<open>verifyObject\<close>
  (\<open>None\<close> when the object provides the interface, the exception otherwise).
  A constructor is given its keyword arguments and the content of the settings
  dictionary it is passed; it returns the content it leaves in that dictionary, and
  an instance or the exception it raises.
\<close>

record environment =
  get_package_file_content :: "string \<Rightarrow> string option"
  json_loads :: "string \<Rightarrow> error + (string \<times> package_index) list"
  import_module :: "string list \<Rightarrow> string \<Rightarrow> string option \<Rightarrow> error + pyobj"
  getattr :: "pyobj \<Rightarrow> string \<Rightarrow> error + pyobj"
  doc :: "pyobj \<Rightarrow> pyval"
  is_file :: "string \<Rightarrow> bool"
  instantiate :: "pyobj \<Rightarrow> (string \<times> arg) list \<Rightarrow> pydict \<Rightarrow> pydict \<times> (error + pyinstance)"
  verifyObject :: "interface \<Rightarrow> pyinstance \<Rightarrow> error option"

text \<open>
  The mutable world: a heap of list and dictionary objects addressed by their index
  (the caller's \<^verbatim>\<open>selected_packages\<close> list and the settings dictionaries in it
  live here), \<^verbatim>\<open>sys.path\<close> and what was printed.
\<close>

datatype obj = ListObj "nat list" | DictObj pydict

record state =
  heap :: "obj list"
  sys_path :: "string list"
  stdout :: "string list"

definition heap_get :: "obj list \<Rightarrow> nat \<Rightarrow> obj option" where
  "heap_get h a = (if a < length h then Some (h ! a) else None)"

subsection \<open>\<^verbatim>\<open>PackageManager.load_package_endpoints_index\<close>\<close>

text \<open>\<^verbatim>\<open>PackageEndpointType[key]\<close>: the member of that name, or \<^verbatim>\<open>KeyError\<close>.\<close>

definition PackageEndpointType_by_name :: "(string \<times> PackageEndpointType) list" where
  "PackageEndpointType_by_name =
     [(''review_type'', review_type), (''load_conversion'', load_conversion),
      (''search_source'', search_source), (''prep'', prep), (''prep_man'', prep_man),
      (''dedupe'', dedupe), (''prescreen'', prescreen), (''pdf_get'', pdf_get),
      (''pdf_get_man'', pdf_get_man), (''pdf_prep'', pdf_prep),
      (''pdf_prep_man'', pdf_prep_man), (''screen'', screen), (''data'', data)]"

text \<open>
  The inner loop over \<^verbatim>\<open>value.items()\<close> with its three assertions. The second one,
  \<^verbatim>\<open>" " not in package_path\<close>, is applied to the metadata dictionary of the entry,
  where \<^verbatim>\<open>in\<close> tests the keys.
\<close>

fun check_entries :: "package_index \<Rightarrow> error + unit" where
  "check_entries [] = Inr ()"
| "check_entries ((package_identifier, package_path) # rest) =
     (if CHR '' '' \<in> set package_identifier then Inl AssertionError
      else if '' '' \<in> set (map fst package_path) then Inl AssertionError
      else if \<not> islower package_identifier then Inl AssertionError
      else check_entries rest)"

fun index_loop :: "(string \<times> package_index) list \<Rightarrow> registry \<Rightarrow> error + registry" where
  "index_loop [] packages = Inr packages"
| "index_loop ((key, val) # rest) packages =
     (case map_of PackageEndpointType_by_name key of
        None \<Rightarrow> Inl KeyError
      | Some package_type \<Rightarrow>
          (case check_entries val of
             Inl e \<Rightarrow> Inl e
           | Inr _ \<Rightarrow> index_loop rest (AList.update package_type val packages)))"

definition load_package_endpoints_index :: "environment \<Rightarrow> error + registry" where
  "load_package_endpoints_index env =
     (case get_package_file_content env ''template/package_endpoints.json'' of
        None \<Rightarrow> Inl CoLRevException
      | Some filedata \<Rightarrow>
          if filedata = [] then Inl CoLRevException
          else (case json_loads env filedata of
                  Inl e \<Rightarrow> Inl e
                | Inr package_dict \<Rightarrow> index_loop package_dict []))"

subsection \<open>\<^verbatim>\<open>PackageManager.load_package_endpoint\<close>\<close>

text \<open>
  A missing stage type or a missing \<^verbatim>\<open>'endpoint'\<close> key is a \<^verbatim>\<open>KeyError\<close>; an
  endpoint that is not a string has no \<^verbatim>\<open>rsplit\<close> (\<^verbatim>\<open>AttributeError\<close>).
\<close>

definition load_package_endpoint ::
  "environment \<Rightarrow> state \<Rightarrow> registry \<Rightarrow> PackageEndpointType \<Rightarrow> string \<Rightarrow> error + pyobj" where
  "load_package_endpoint env st packages package_type package_identifier =
     (case map_of packages package_type of
        None \<Rightarrow> Inl KeyError
      | Some index \<Rightarrow>
          (case map_of index (lower package_identifier) of
             None \<Rightarrow> Inl MissingDependencyError
           | Some entry \<Rightarrow>
               (case map_of entry ''endpoint'' of
                  None \<Rightarrow> Inl KeyError
                | Some (Str package_str) \<Rightarrow>
                    (case import_module env (sys_path st)
                            (hd (rsplit1 CHR ''.'' package_str)) None of
                       Inl e \<Rightarrow> Inl e
                     | Inr imported_package \<Rightarrow>
                         getattr env imported_package (last (rsplit1 CHR ''.'' package_str)))
                | Some _ \<Rightarrow> Inl AttributeError)))"

subsection \<open>\<^verbatim>\<open>PackageManager.__flag_installed_packages\<close> and \<^verbatim>\<open>__init__\<close>\<close>

text \<open>
  The loops mutate the metadata dictionaries in place while
  \<^verbatim>\<open>load_package_endpoint\<close> reads \<^verbatim>\<open>self.packages\<close>: the registry at each step is
  the original one with the index of the current type replaced by its entries as far
  as they are flagged.
\<close>

fun flag_entries ::
  "environment \<Rightarrow> state \<Rightarrow> registry \<Rightarrow> PackageEndpointType \<Rightarrow> package_index \<Rightarrow> package_index
    \<Rightarrow> error + package_index" where
  "flag_entries env st packages package_type flagged [] = Inr flagged"
| "flag_entries env st packages package_type flagged
       ((package_identifier, discovered_package) # pending) =
     (case load_package_endpoint env st
             (AList.update package_type
                (flagged @ (package_identifier, discovered_package) # pending) packages)
             package_type package_identifier of
        Inr _ \<Rightarrow>
          flag_entries env st packages package_type
            (flagged @ [(package_identifier,
                         AList.update ''installed'' (Bool True) discovered_package)])
            pending
      | Inl e \<Rightarrow>
          if e = AttributeError \<or> e = ModuleNotFoundError
          then flag_entries env st packages package_type
                 (flagged @ [(package_identifier,
                              AList.update ''installed'' (Bool False) discovered_package)])
                 pending
          else Inl e)"

fun flag_types ::
  "environment \<Rightarrow> state \<Rightarrow> registry \<Rightarrow> registry \<Rightarrow> error + registry" where
  "flag_types env st packages [] = Inr packages"
| "flag_types env st packages ((package_type, package) # pending) =
     (case flag_entries env st packages package_type [] package of
        Inl e \<Rightarrow> Inl e
      | Inr flagged \<Rightarrow>
          flag_types env st (AList.update package_type flagged packages) pending)"

definition flag_installed_packages ::
  "environment \<Rightarrow> state \<Rightarrow> registry \<Rightarrow> error + registry" where
  "flag_installed_packages env st packages = flag_types env st packages packages"

text \<open>\<^verbatim>\<open>PackageManager()\<close>: the value is \<^verbatim>\<open>self.packages\<close> of the new object.\<close>

definition init :: "environment \<Rightarrow> state \<Rightarrow> error + registry" where
  "init env st =
     (case load_package_endpoints_index env of
        Inl e \<Rightarrow> Inl e
      | Inr packages \<Rightarrow> flag_installed_packages env st packages)"

subsection \<open>\<^verbatim>\<open>PackageManager.discover_packages\<close>\<close>

text \<open>
  The result is the index object of the type itself, mutated in place; what was
  mutated before an exception stays mutated, so the registry is returned in both cases.
  \<open>skipped\<close> is the test \<^verbatim>\<open>installed_only and not package["installed"]\<close>,
  \<open>describe_package\<close> the rest of the loop body.
\<close>

definition skipped :: "bool \<Rightarrow> pydict \<Rightarrow> error + bool" where
  "skipped installed_only package =
     (if installed_only
      then (case map_of package ''installed'' of
              None \<Rightarrow> Inl KeyError
            | Some installed \<Rightarrow> Inr (\<not> truthy installed))
      else Inr False)"

definition describe_package ::
  "environment \<Rightarrow> state \<Rightarrow> registry \<Rightarrow> PackageEndpointType \<Rightarrow> string \<Rightarrow> pydict
    \<Rightarrow> pydict \<times> error option" where
  "describe_package env st packages package_type package_identifier package =
     (case load_package_endpoint env st packages package_type package_identifier of
        Inl e \<Rightarrow> (package, Some e)
      | Inr package_class \<Rightarrow>
          (case map_of package ''installed'' of
             None \<Rightarrow>
               (AList.update ''description'' (doc env package_class) package, Some KeyError)
           | Some installed \<Rightarrow>
               (AList.update ''installed'' installed
                  (AList.update ''description'' (doc env package_class) package),
                None)))"



subsection \<open>\<^verbatim>\<open>PackageManager.package_type_overview\<close>\<close>

record overview =
  import_name :: interface
  custom_class :: string
  operation_name :: string

definition package_type_overview :: "(PackageEndpointType \<times> overview) list" where
  "package_type_overview =
     [(review_type,
       \<lparr>import_name = ReviewTypePackageInterface, custom_class = ''CustomReviewType'',
        operation_name = ''operation''\<rparr>),
      (load_conversion,
       \<lparr>import_name = LoadConversionPackageInterface, custom_class = ''CustomLoad'',
        operation_name = ''load_operation''\<rparr>),
      (search_source,
       \<lparr>import_name = SearchSourcePackageInterface, custom_class = ''CustomSearchSource'',
        operation_name = ''source_operation''\<rparr>),
      (prep,
       \<lparr>import_name = PrepPackageInterface, custom_class = ''CustomPrep'',
        operation_name = ''prep_operation''\<rparr>),
      (prep_man,
       \<lparr>import_name = PrepManPackageInterface, custom_class = ''CustomPrepMan'',
        operation_name = ''prep_man_operation''\<rparr>),
      (dedupe,
       \<lparr>import_name = DedupePackageInterface, custom_class = ''CustomDedupe'',
        operation_name = ''dedupe_operation''\<rparr>),
      (prescreen,
       \<lparr>import_name = PrescreenPackageInterface, custom_class = ''CustomPrescreen'',
        operation_name = ''prescreen_operation''\<rparr>),
      (pdf_get,
       \<lparr>import_name = PDFGetPackageInterface, custom_class = ''CustomPDFGet'',
        operation_name = ''pdf_get_operation''\<rparr>),
      (pdf_get_man,
       \<lparr>import_name = PDFGetManPackageInterface, custom_class = ''CustomPDFGetMan'',
        operation_name = ''pdf_get_man_operation''\<rparr>),
      (pdf_prep,
       \<lparr>import_name = PDFPrepPackageInterface, custom_class = ''CustomPDFPrep'',
        operation_name = ''pdf_prep_operation''\<rparr>),
      (pdf_prep_man,
       \<lparr>import_name = PDFPrepManPackageInterface, custom_class = ''CustomPDFPrepMan'',
        operation_name = ''pdf_prep_man_operation''\<rparr>),
      (screen,
       \<lparr>import_name = ScreenPackageInterface, custom_class = ''CustomScreen'',
        operation_name = ''screen_operation''\<rparr>),
      (data,
       \<lparr>import_name = DataPackageInterface, custom_class = ''CustomData'',
        operation_name = ''data_operation''\<rparr>)]"

subsection \<open>\<^verbatim>\<open>copy.deepcopy\<close> of the list of selected packages\<close>

text \<open>
  The copy of a list of settings dictionaries is a new list object whose items are new
  dictionary objects with the same content; an object that occurs twice is copied once
  (the memo). A settings dictionary holds its nested values inline, so copying its
  content copies them too. The new objects are appended to the heap: \<open>new\<close> collects
  them, and the address of the next one is \<open>length h + length new\<close>. An item that is
  not a dictionary cannot be subscripted by \<^verbatim>\<open>'endpoint'\<close> later on; the model raises
  that \<^verbatim>\<open>TypeError\<close> here.
\<close>

fun deepcopy_items ::
  "obj list \<Rightarrow> obj list \<Rightarrow> (nat \<times> nat) list \<Rightarrow> nat list \<Rightarrow> error + obj list \<times> nat list" where
  "deepcopy_items h new memo [] = Inr (new, [])"
| "deepcopy_items h new memo (a # rest) =
     (case map_of memo a of
        Some copied \<Rightarrow>
          (case deepcopy_items h new memo rest of
             Inl e \<Rightarrow> Inl e
           | Inr (new', copies) \<Rightarrow> Inr (new', copied # copies))
      | None \<Rightarrow>
          (case heap_get h a of
             Some (DictObj d) \<Rightarrow>
               (case deepcopy_items h (new @ [DictObj d])
                       ((a, length h + length new) # memo) rest of
                  Inl e \<Rightarrow> Inl e
                | Inr (new', copies) \<Rightarrow> Inr (new', (length h + length new) # copies))
           | _ \<Rightarrow> Inl TypeError))"

definition deepcopy :: "obj list \<Rightarrow> nat \<Rightarrow> error + obj list \<times> nat" where
  "deepcopy h a =
     (case heap_get h a of
        Some (ListObj items) \<Rightarrow>
          (case deepcopy_items h [] [] items of
             Inl e \<Rightarrow> Inl e
           | Inr (new, copies) \<Rightarrow>
               Inr (h @ new @ [ListObj copies], length h + length new))
      | _ \<Rightarrow> Inl TypeError)"

subsection \<open>\<^verbatim>\<open>PackageManager.__get_packages_dict\<close>\<close>

text \<open>
  An entry of \<^verbatim>\<open>packages_dict\<close>: the key \<^verbatim>\<open>'settings'\<close> is always there (a
  reference to the copied settings dictionary), \<^verbatim>\<open>'endpoint'\<close> may be missing, and
  \<^verbatim>\<open>'custom_flag'\<close> is either missing or \<^verbatim>\<open>True\<close>.
\<close>

record package_entry =
  settings :: nat
  endpoint :: "pyobj option"
  custom_flag :: bool

type_synonym packages_dict = "(string \<times> package_entry) list"

text \<open>
  The body of the loop over the copied \<^verbatim>\<open>selected_packages\<close>, for one
  \<^verbatim>\<open>selected_package\<close>: \<^verbatim>\<open>continue\<close> is a normal result. The branches are those of
  the source, in its order, the unreachable ones included.
\<close>

definition get_package ::
  "environment \<Rightarrow> registry \<Rightarrow> PackageEndpointType \<Rightarrow> bool \<Rightarrow> nat \<Rightarrow> state \<Rightarrow> packages_dict
    \<Rightarrow> state \<times> (error + packages_dict)" where
  "get_package env packages package_type ignore_not_available selected_package st
       packages_dict =
     (case heap_get (heap st) selected_package of
        Some (DictObj d) \<Rightarrow>
          (case map_of d ''endpoint'' of
             None \<Rightarrow> (st, Inl KeyError)
           | Some (Str name) \<Rightarrow>
               (let package_identifier = lower name;
                    fresh = \<lparr>settings = selected_package, endpoint = None,
                             custom_flag = False\<rparr>;
                    packages_dict = AList.update package_identifier fresh packages_dict
                in case map_of packages package_type of
                     None \<Rightarrow> (st, Inl KeyError)
                   | Some index \<Rightarrow>
                       (case map_of index package_identifier of
                          Some entry \<Rightarrow>
                            (case map_of entry ''installed'' of
                               None \<Rightarrow> (st, Inl KeyError)
                             | Some installed \<Rightarrow>
                                 if \<not> truthy installed
                                 then (st\<lparr>stdout := stdout st @
                                          [''Cannot load '' @ package_identifier
                                             @ '' (not installed)'']\<rparr>,
                                       Inr packages_dict)
                                 else if truthy installed
                                 then (case load_package_endpoint env st packages
                                              package_type package_identifier of
                                         Inl e \<Rightarrow> (st, Inl e)
                                       | Inr package_class \<Rightarrow>
                                           (st, Inr (AList.update package_identifier
                                                       (fresh\<lparr>endpoint := Some package_class\<rparr>)
                                                       packages_dict)))
                                 else (st, Inr packages_dict))
                        | None \<Rightarrow>
                            if ignore_not_available
                            then (st, Inl MissingDependencyError)
                            else if \<not> is_file env (package_identifier @ ''.py'')
                            then (case import_module env (sys_path st) package_identifier
                                         None of
                                    Inr imported \<Rightarrow>
                                      (st, Inr (AList.update package_identifier
                                                  (fresh\<lparr>endpoint := Some imported,
                                                           custom_flag := True\<rparr>)
                                                  packages_dict))
                                  | Inl e \<Rightarrow>
                                      if e = ModuleNotFoundError
                                      then (if ignore_not_available
                                            then (st, Inr (AList.delete package_identifier
                                                             packages_dict))
                                            else (st, Inl MissingDependencyError))
                                      else (st, Inl e))
                            else if is_file env (package_identifier @ ''.py'')
                            then (case import_module env (sys_path st @ [''.''])
                                         package_identifier (Some ''.'') of
                                    Inl e \<Rightarrow> (st\<lparr>sys_path := sys_path st @ [''.'']\<rparr>, Inl e)
                                  | Inr imported \<Rightarrow>
                                      (st\<lparr>sys_path := sys_path st @ [''.'']\<rparr>,
                                       Inr (AList.update package_identifier
                                              (fresh\<lparr>endpoint := Some imported,
                                                       custom_flag := True\<rparr>)
                                              packages_dict)))
                            else (st\<lparr>stdout := stdout st @ [''Could not load'']\<rparr>,
                                  Inr packages_dict)))
           | Some _ \<Rightarrow> (st, Inl AttributeError))
      | _ \<Rightarrow> (st, Inl TypeError))"

fun get_packages_loop ::
  "environment \<Rightarrow> registry \<Rightarrow> PackageEndpointType \<Rightarrow> bool \<Rightarrow> nat list \<Rightarrow> state
    \<Rightarrow> packages_dict \<Rightarrow> state \<times> (error + packages_dict)" where
  "get_packages_loop env packages package_type ignore_not_available [] st packages_dict =
     (st, Inr packages_dict)"
| "get_packages_loop env packages package_type ignore_not_available
       (selected_package # rest) st packages_dict =
     (case get_package env packages package_type ignore_not_available selected_package st
             packages_dict of
        (st', Inl e) \<Rightarrow> (st', Inl e)
      | (st', Inr packages_dict') \<Rightarrow>
          get_packages_loop env packages package_type ignore_not_available rest st'
            packages_dict')"

definition get_packages_dict ::
  "environment \<Rightarrow> registry \<Rightarrow> nat \<Rightarrow> PackageEndpointType \<Rightarrow> bool \<Rightarrow> state
    \<Rightarrow> state \<times> (error + packages_dict)" where
  "get_packages_dict env packages selected_packages package_type ignore_not_available st =
     (case deepcopy (heap st) selected_packages of
        Inl e \<Rightarrow> (st, Inl e)
      | Inr (h, copy) \<Rightarrow>
          (case heap_get h copy of
             Some (ListObj items) \<Rightarrow>
               get_packages_loop env packages package_type ignore_not_available items
                 (st\<lparr>heap := h\<rparr>) []
           | _ \<Rightarrow> (st\<lparr>heap := h\<rparr>, Inl TypeError)))"

subsection \<open>\<^verbatim>\<open>PackageManager.__drop_broken_packages\<close>\<close>

text \<open>
  The body of the loop over \<^verbatim>\<open>packages_dict.items()\<close>. In the branch that pops the
  key the dictionary changes size, and the iterator raises \<^verbatim>\<open>RuntimeError\<close> when
  the loop asks it for the next item.
\<close>

definition drop_broken_package ::
  "environment \<Rightarrow> overview \<Rightarrow> bool \<Rightarrow> string \<times> package_entry \<Rightarrow> state \<Rightarrow> packages_dict
    \<Rightarrow> state \<times> (error + packages_dict)" where
  "drop_broken_package env package_details ignore_not_available item st packages_dict =
     (case item of (k, val) \<Rightarrow>
        if \<not> custom_flag val then (st, Inr packages_dict)
        else (case endpoint val of
                None \<Rightarrow> (st, Inl KeyError)
              | Some module \<Rightarrow>
                  (case getattr env module (custom_class package_details) of
                     Inr cls \<Rightarrow>
                       (st, Inr (AList.update k
                                   (val\<lparr>endpoint := Some cls, custom_flag := False\<rparr>)
                                   packages_dict))
                   | Inl e \<Rightarrow>
                       if e = AttributeError
                       then (if \<not> ignore_not_available
                             then (st, Inl MissingDependencyError)
                             else (st\<lparr>stdout := stdout st @
                                       [''Skipping broken package ('' @ k @ '')'']\<rparr>,
                                   Inl RuntimeError))
                       else (st, Inl e))))"

fun drop_broken_loop ::
  "environment \<Rightarrow> overview \<Rightarrow> bool \<Rightarrow> packages_dict \<Rightarrow> state \<Rightarrow> packages_dict
    \<Rightarrow> state \<times> (error + packages_dict)" where
  "drop_broken_loop env package_details ignore_not_available [] st packages_dict =
     (st, Inr packages_dict)"
| "drop_broken_loop env package_details ignore_not_available (item # rest) st packages_dict =
     (case drop_broken_package env package_details ignore_not_available item st
             packages_dict of
        (st', Inl e) \<Rightarrow> (st', Inl e)
      | (st', Inr packages_dict') \<Rightarrow>
          drop_broken_loop env package_details ignore_not_available rest st' packages_dict')"

definition drop_broken_packages ::
  "environment \<Rightarrow> packages_dict \<Rightarrow> PackageEndpointType \<Rightarrow> bool \<Rightarrow> state
    \<Rightarrow> state \<times> (error + packages_dict)" where
  "drop_broken_packages env packages_dict package_type ignore_not_available st =
     (case map_of package_type_overview package_type of
        None \<Rightarrow> (st, Inl KeyError)
      | Some package_details \<Rightarrow>
          drop_broken_loop env package_details ignore_not_available packages_dict st
            packages_dict)"

subsection \<open>\<^verbatim>\<open>PackageManager.load_packages\<close>\<close>

text \<open>
  \<^verbatim>\<open>"search_source" == package_type\<close> compares a string with a member of a plain
  \<^verbatim>\<open>Enum\<close>, which is never equal to a string.
\<close>

definition str_eq_PackageEndpointType :: "string \<Rightarrow> PackageEndpointType \<Rightarrow> bool" where
  "str_eq_PackageEndpointType s package_type = False"

text \<open>What \<^verbatim>\<open>load_packages\<close> leaves under a key: an instance, or the endpoint itself.\<close>

datatype loaded = Inst pyinstance | Cls pyobj

text \<open>
  The body of the last loop, for one item of \<^verbatim>\<open>packages_dict\<close>. The keyword
  arguments are a dictionary literal with two keys. The constructor works on the
  settings dictionary it is passed: what it leaves there is written back to the heap,
  also when it raises.
\<close>

definition load_package ::
  "environment \<Rightarrow> overview \<Rightarrow> PackageEndpointType \<Rightarrow> operation \<Rightarrow> bool
    \<Rightarrow> string \<times> package_entry \<Rightarrow> state \<Rightarrow> state \<times> (error + loaded)" where
  "load_package env package_details package_type operation instantiate_objects item st =
     (case item of (package_identifier, package_class) \<Rightarrow>
        (case (let params = AList.update ''settings'' (SettingsArg (settings package_class))
                              [(operation_name package_details, OperationArg operation)]
               in if str_eq_PackageEndpointType ''search_source'' package_type
                  then (if ''check_operation'' \<in> set (map fst params)
                        then Inr (AList.delete ''check_operation'' params)
                        else Inl KeyError)
                  else Inr params) of
           Inl e \<Rightarrow> (st, Inl e)
         | Inr params \<Rightarrow>
             (case endpoint package_class of
                None \<Rightarrow> (st, Inl MissingDependencyError)
              | Some cls \<Rightarrow>
                  if instantiate_objects
                  then (case heap_get (heap st) (settings package_class) of
                          Some (DictObj d) \<Rightarrow>
                            (case instantiate env cls params d of
                               (d', Inl e) \<Rightarrow>
                                 (st\<lparr>heap := (heap st)[settings package_class := DictObj d']\<rparr>,
                                  Inl e)
                             | (d', Inr created) \<Rightarrow>
                                 (case verifyObject env (import_name package_details)
                                         created of
                                    Some e \<Rightarrow>
                                      (st\<lparr>heap := (heap st)
                                              [settings package_class := DictObj d']\<rparr>,
                                       Inl e)
                                  | None \<Rightarrow>
                                      (st\<lparr>heap := (heap st)
                                              [settings package_class := DictObj d']\<rparr>,
                                       Inr (Inst created))))
                        | _ \<Rightarrow> (st, Inl TypeError))
                  else (st, Inr (Cls cls)))))"

fun load_loop ::
  "environment \<Rightarrow> overview \<Rightarrow> PackageEndpointType \<Rightarrow> operation \<Rightarrow> bool \<Rightarrow> packages_dict
    \<Rightarrow> state \<Rightarrow> (string \<times> loaded) list \<Rightarrow> state \<times> (error + (string \<times> loaded) list)" where
  "load_loop env package_details package_type operation instantiate_objects [] st acc =
     (st, Inr acc)"
| "load_loop env package_details package_type operation instantiate_objects (item # rest)
       st acc =
     (case load_package env package_details package_type operation instantiate_objects
             item st of
        (st', Inl e) \<Rightarrow> (st', Inl e)
      | (st', Inr v) \<Rightarrow>
          load_loop env package_details package_type operation instantiate_objects rest
            st' (acc @ [(fst item, v)]))"

text \<open>\<^verbatim>\<open>selected_packages\<close> is the address of the caller's list.\<close>

definition load_packages ::
  "environment \<Rightarrow> registry \<Rightarrow> PackageEndpointType \<Rightarrow> nat \<Rightarrow> operation \<Rightarrow> bool \<Rightarrow> bool
    \<Rightarrow> state \<Rightarrow> state \<times> (error + (string \<times> loaded) list)" where
  "load_packages env packages package_type selected_packages operation ignore_not_available
       instantiate_objects st =
     (if package_type \<notin> set (map fst package_type_overview)
      then (st, Inl MissingDependencyError)
      else (case get_packages_dict env packages selected_packages package_type
                   ignore_not_available st of
              (st1, Inl e) \<Rightarrow> (st1, Inl e)
            | (st1, Inr packages_dict) \<Rightarrow>
                (case drop_broken_packages env packages_dict package_type
                        ignore_not_available st1 of
                   (st2, Inl e) \<Rightarrow> (st2, Inl e)
                 | (st2, Inr packages_dict') \<Rightarrow>
                     (case map_of package_type_overview package_type of
                        None \<Rightarrow> (st2, Inl KeyError)
                      | Some package_details \<Rightarrow>
                          load_loop env package_details package_type operation
                            instantiate_objects packages_dict' st2 []))))"

subsection \<open>An example world\<close>

text \<open>
  A small package index, an environment in which some of its endpoints can be imported,
  and a state, for evaluating the model on concrete inputs.
\<close>

definition example_prep_index :: package_index where
  "example_prep_index =
     [(''exclude_languages'', [(''endpoint'', Str ''colrev.prep.ExcludeLanguages'')]),
      (''absent'', [(''endpoint'', Str ''colrev_absent.Absent'')])]"

definition example_prescreen_index :: package_index where
  "example_prescreen_index =
     [(''scope'', [(''endpoint'', Str ''colrev.prescreen.Scope'')])]"

definition example_index :: "(string \<times> package_index) list" where
  "example_index =
     [(''prep'', example_prep_index), (''prescreen'', example_prescreen_index)]"

definition example_env :: environment where
  "example_env =
     \<lparr>get_package_file_content =
        (\<lambda>p. if p = ''template/package_endpoints.json'' then Some ''{...}'' else None),
      json_loads = (\<lambda>s. Inr example_index),
      import_module =
        (\<lambda>path name anchor.
           if name \<in> set [''colrev.prep'', ''colrev.prescreen'', ''module_prep'']
              \<or> (name = ''custom_prep'' \<and> ''.'' \<in> set path)
           then Inr (PyObj name) else Inl ModuleNotFoundError),
      getattr =
        (\<lambda>ob name.
           case ob of PyObj m \<Rightarrow>
             if (m, name) \<in> set [(''colrev.prep'', ''ExcludeLanguages''),
                                  (''colrev.prescreen'', ''Scope''),
                                  (''module_prep'', ''CustomPrep''),
                                  (''custom_prep'', ''CustomPrep'')]
             then Inr (PyObj (m @ ''.'' @ name)) else Inl AttributeError),
      doc = (\<lambda>ob. case ob of PyObj m \<Rightarrow> Str (''Doc of '' @ m)),
      is_file = (\<lambda>f. f = ''custom_prep.py''),
      instantiate =
        (\<lambda>cls params settings.
           (AList.update ''applied'' (Bool True) settings,
            case cls of PyObj m \<Rightarrow> Inr (Instance m))),
      verifyObject = (\<lambda>iface inst. None)\<rparr>"

text \<open>
  The heap holds four settings dictionaries (a built-in package, a built-in package
  that is not installed, a module package and a custom package of the project
  directory) and two lists of selected packages, at the addresses 4 and 5.
\<close>

definition example_heap :: "obj list" where
  "example_heap =
     [DictObj [(''endpoint'', Str ''Exclude_Languages''), (''languages'', Str ''en'')],
      DictObj [(''endpoint'', Str ''absent'')],
      DictObj [(''endpoint'', Str ''module_prep'')],
      DictObj [(''endpoint'', Str ''custom_prep'')],
      ListObj [0, 2, 3],
      ListObj [0, 1]]"

definition example_state :: state where
  "example_state =
     \<lparr>heap = example_heap, sys_path = [''/usr/lib/python3''], stdout = []\<rparr>"


text \<open>The same environment, where importing one of the indexed modules fails with an
  exception that flagging does not catch.\<close>

definition example_env_syntax_error :: environment where
  "example_env_syntax_error =
     example_env\<lparr>import_module :=
       (\<lambda>path name anchor.
          if name = ''colrev_absent'' then Inl (OtherError ''SyntaxError'')
          else import_module example_env path name anchor)\<rparr>"

text \<open>The same environment with an index whose only endpoint path contains a space.\<close>

definition example_env_space :: environment where
  "example_env_space =
     example_env\<lparr>json_loads :=
       (\<lambda>s. Inr [(''prep'', [(''abc'', [(''endpoint'', Str ''a b.C'')])])])\<rparr>"

text \<open>The registry that construction returns in the example environment.\<close>

definition example_prep_flagged :: package_index where
  "example_prep_flagged =
     [(''exclude_languages'',
       [(''endpoint'', Str ''colrev.prep.ExcludeLanguages''), (''installed'', Bool True)]),
      (''absent'',
       [(''endpoint'', Str ''colrev_absent.Absent''), (''installed'', Bool False)])]"

definition example_registry :: registry where
  "example_registry =
     [(prep, example_prep_flagged),
      (prescreen,
       [(''scope'',
         [(''endpoint'', Str ''colrev.prescreen.Scope''), (''installed'', Bool True)])])]"

subsection \<open>Abstractions of the registry used in the proofs\<close>

text \<open>
  \<^verbatim>\<open>load_package_endpoint\<close> reads the registry only through the
  \<^verbatim>\<open>'endpoint'\<close> values: \<open>endpoint_view\<close> keeps exactly these. \<open>flag_entry\<close> is
  what flagging does to one entry, \<open>flaggable\<close> says that loading an entry succeeds
  or raises one of the two exceptions that flagging catches.
\<close>

definition endpoints_of :: "package_index \<Rightarrow> (string \<times> pyval option) list" where
  "endpoints_of index = map (\<lambda>item. (fst item, map_of (snd item) ''endpoint'')) index"

definition endpoint_view ::
  "registry \<Rightarrow> (PackageEndpointType \<times> (string \<times> pyval option) list) list" where
  "endpoint_view packages = map (\<lambda>item. (fst item, endpoints_of (snd item))) packages"

definition flag_entry ::
  "environment \<Rightarrow> state \<Rightarrow> registry \<Rightarrow> PackageEndpointType \<Rightarrow> string \<times> pydict
    \<Rightarrow> string \<times> pydict" where
  "flag_entry env st packages package_type item =
     (fst item,
      AList.update ''installed''
        (Bool (\<not> isl (load_package_endpoint env st packages package_type (fst item))))
        (snd item))"

definition flaggable ::
  "environment \<Rightarrow> state \<Rightarrow> registry \<Rightarrow> PackageEndpointType \<Rightarrow> string \<times> pydict \<Rightarrow> bool" where
  "flaggable env st packages package_type item =
     (case load_package_endpoint env st packages package_type (fst item) of
        Inr cls \<Rightarrow> True
      | Inl e \<Rightarrow> e = AttributeError \<or> e = ModuleNotFoundError)"

definition flag_index ::
  "environment \<Rightarrow> state \<Rightarrow> registry \<Rightarrow> PackageEndpointType \<times> package_index
    \<Rightarrow> PackageEndpointType \<times> package_index" where
  "flag_index env st packages item =
     (fst item, map (flag_entry env st packages (fst item)) (snd item))"

definition all_flaggable ::
  "environment \<Rightarrow> state \<Rightarrow> registry \<Rightarrow> PackageEndpointType \<times> package_index \<Rightarrow> bool" where
  "all_flaggable env st packages item =
     list_all (flaggable env st packages (fst item)) (snd item)"

text \<open>
  \<open>discover_entry\<close> is what \<^verbatim>\<open>discover_packages\<close> does to one entry when its loop
  body does not raise, and \<open>discoverable\<close> says that it does not raise.
\<close>

definition discover_entry ::
  "environment \<Rightarrow> state \<Rightarrow> registry \<Rightarrow> PackageEndpointType \<Rightarrow> bool \<Rightarrow> string \<times> pydict
    \<Rightarrow> string \<times> pydict" where
  "discover_entry env st packages package_type installed_only item =
     (fst item,
      case skipped installed_only (snd item) of
        Inr True \<Rightarrow> snd item
      | _ \<Rightarrow> fst (describe_package env st packages package_type (fst item) (snd item)))"


text \<open>
  \<open>copied_settings h items h1 c\<close>: in the heap \<open>h1\<close> the address \<open>c\<close> is new with
  respect to the heap \<open>h\<close> and holds a dictionary with the content of one of the
  \<open>items\<close> in \<open>h\<close>. \<open>entry_ok\<close>: the settings of an entry of \<^verbatim>\<open>packages_dict\<close>
  are such a copy, and the key of the entry is its lowercased \<^verbatim>\<open>'endpoint'\<close>.
\<close>

definition copied_settings :: "obj list \<Rightarrow> nat list \<Rightarrow> obj list \<Rightarrow> nat \<Rightarrow> bool" where
  "copied_settings h items h1 c =
     (length h \<le> c \<and> c < length h1
      \<and> (\<exists>a d. a \<in> set items \<and> heap_get h a = Some (DictObj d) \<and> h1 ! c = DictObj d))"

definition entry_ok :: "obj list \<Rightarrow> nat list \<Rightarrow> obj list \<Rightarrow> string \<times> package_entry \<Rightarrow> bool" where
  "entry_ok h items h1 item =
     (copied_settings h items h1 (settings (snd item))
      \<and> (\<exists>d name. h1 ! settings (snd item) = DictObj d
             \<and> map_of d ''endpoint'' = Some (Str name) \<and> lower name = fst item))"


section \<open>Theorems\<close>

subsection \<open>The string functions\<close>



lemma lower_no_upper: "\<not> list_ex is_upper s \<Longrightarrow> lower s = s"
  by (induction s) (auto simp: lower_def lower_char_def)

lemma islower_lower: "islower s \<Longrightarrow> lower s = s"
  by (simp add: islower_def lower_no_upper)

lemma rsplit1_nonempty: "rsplit1 sep s \<noteq> []"
  by (simp add: rsplit1_def)




subsection \<open>Flagging the installed packages\<close>

lemma all_flaggable_pair [simp]:
  "all_flaggable env st packages (t, index) = list_all (flaggable env st packages t) index"
  by (simp add: all_flaggable_def)

lemma map_of_endpoints_of:
  "map_of (endpoints_of index) k = map_option (\<lambda>m. map_of m ''endpoint'') (map_of index k)"
  by (induction index) (auto simp: endpoints_of_def)

lemma map_of_endpoint_view:
  "map_of (endpoint_view packages) t = map_option endpoints_of (map_of packages t)"
  by (induction packages) (auto simp: endpoint_view_def)

lemma load_package_endpoint_cong:
  assumes "endpoint_view packages = endpoint_view packages'"
  shows "load_package_endpoint env st packages package_type package_identifier
         = load_package_endpoint env st packages' package_type package_identifier"
proof -
  have v: "map_option endpoints_of (map_of packages package_type)
           = map_option endpoints_of (map_of packages' package_type)"
    using assms map_of_endpoint_view by metis
  show ?thesis
  proof (cases "map_of packages package_type")
    case None
    with v have "map_of packages' package_type = None" by simp
    with None show ?thesis by (simp add: load_package_endpoint_def)
  next
    case (Some index)
    with v obtain index' where i': "map_of packages' package_type = Some index'"
      and e: "endpoints_of index = endpoints_of index'"
      by (cases "map_of packages' package_type") auto
    have "map_option (\<lambda>m. map_of m ''endpoint'') (map_of index (lower package_identifier))
          = map_option (\<lambda>m. map_of m ''endpoint'') (map_of index' (lower package_identifier))"
      using e map_of_endpoints_of by metis
    then show ?thesis
      using Some i'
      by (cases "map_of index (lower package_identifier)";
          cases "map_of index' (lower package_identifier)")
         (auto simp: load_package_endpoint_def)
  qed
qed

lemma endpoint_view_update:
  "endpoint_view (AList.update t index packages)
   = AList.update t (endpoints_of index) (endpoint_view packages)"
  by (induction packages) (auto simp: endpoint_view_def)

lemma endpoint_view_update_same:
  assumes "map_of packages t = Some index0" "endpoints_of index = endpoints_of index0"
  shows "endpoint_view (AList.update t index packages) = endpoint_view packages"
proof -
  have "map_of (endpoint_view packages) t = Some (endpoints_of index)"
    using assms by (simp add: map_of_endpoint_view)
  then show ?thesis
    by (simp add: endpoint_view_update update_triv)
qed

lemma map_of_update_installed [simp]:
  "map_of (AList.update ''installed'' v m) ''endpoint'' = map_of m ''endpoint''"
  by (simp add: update_conv')

lemma endpoints_of_append:
  "endpoints_of (xs @ ys) = endpoints_of xs @ endpoints_of ys"
  by (simp add: endpoints_of_def)

lemma endpoints_of_flag_step:
  "endpoints_of ((flagged @ [(k, AList.update ''installed'' v m)]) @ pending)
   = endpoints_of (flagged @ (k, m) # pending)"
  by (simp add: endpoints_of_def)

lemma flag_entries_ok:
  assumes "map_of packages t = Some index0"
    and "endpoints_of (flagged @ pending) = endpoints_of index0"
    and "list_all (flaggable env st packages t) pending"
  shows "flag_entries env st packages t flagged pending
         = Inr (flagged @ map (flag_entry env st packages t) pending)"
  using assms(2,3)
proof (induction pending arbitrary: flagged)
  case Nil
  then show ?case by simp
next
  case (Cons item pending)
  obtain k m where item: "item = (k, m)" by (cases item)
  have l: "load_package_endpoint env st
             (AList.update t (flagged @ (k, m) # pending) packages) t k
           = load_package_endpoint env st packages t k"
    using Cons.prems(1) assms(1) item
    by (intro load_package_endpoint_cong endpoint_view_update_same) auto
  have step: "\<And>v. endpoints_of ((flagged @ [(k, AList.update ''installed'' v m)]) @ pending)
                   = endpoints_of index0"
    using Cons.prems(1) item by (simp add: endpoints_of_def)
  have rest: "list_all (flaggable env st packages t) pending"
    using Cons.prems(2) by simp
  have f: "flaggable env st packages t (k, m)"
    using Cons.prems(2) item by simp
  show ?case
  proof (cases "load_package_endpoint env st packages t k")
    case (Inr cls)
    then show ?thesis
      using Cons.IH [OF step rest] l item by (simp add: flag_entry_def)
  next
    case (Inl e)
    with f have "e = AttributeError \<or> e = ModuleNotFoundError"
      by (simp add: flaggable_def)
    then show ?thesis
      using Cons.IH [OF step rest] l item Inl by (auto simp: flag_entry_def)
  qed
qed

lemma flag_entries_error:
  assumes "map_of packages t = Some index0"
    and "endpoints_of (flagged @ pending) = endpoints_of index0"
    and "\<not> list_all (flaggable env st packages t) pending"
  shows "\<exists>e item. flag_entries env st packages t flagged pending = Inl e
           \<and> item \<in> set pending
           \<and> load_package_endpoint env st packages t (fst item) = Inl e
           \<and> e \<noteq> AttributeError \<and> e \<noteq> ModuleNotFoundError"
  using assms(2,3)
proof (induction pending arbitrary: flagged)
  case Nil
  then show ?case by simp
next
  case (Cons item pending)
  obtain k m where item: "item = (k, m)" by (cases item)
  have l: "load_package_endpoint env st
             (AList.update t (flagged @ (k, m) # pending) packages) t k
           = load_package_endpoint env st packages t k"
    using Cons.prems(1) assms(1) item
    by (intro load_package_endpoint_cong endpoint_view_update_same) auto
  have step: "\<And>v. endpoints_of ((flagged @ [(k, AList.update ''installed'' v m)]) @ pending)
                   = endpoints_of index0"
    using Cons.prems(1) item by (simp add: endpoints_of_def)
  show ?case
  proof (cases "flaggable env st packages t (k, m)")
    case True
    with Cons.prems(2) item have rest: "\<not> list_all (flaggable env st packages t) pending"
      by simp
    from True obtain v where fe:
      "flag_entries env st packages t flagged ((k, m) # pending)
       = flag_entries env st packages t
           (flagged @ [(k, AList.update ''installed'' v m)]) pending"
      using l
      by (cases "load_package_endpoint env st packages t k")
         (auto simp: flaggable_def)
    from Cons.IH [OF step rest, of v] obtain e item' where
      "flag_entries env st packages t
         (flagged @ [(k, AList.update ''installed'' v m)]) pending = Inl e"
      "item' \<in> set pending"
      "load_package_endpoint env st packages t (fst item') = Inl e"
      "e \<noteq> AttributeError" "e \<noteq> ModuleNotFoundError"
      by blast
    then show ?thesis
      using fe item by (intro exI [of _ e] exI [of _ item']) simp
  next
    case False
    then obtain e where "load_package_endpoint env st packages t k = Inl e"
      "e \<noteq> AttributeError" "e \<noteq> ModuleNotFoundError"
      by (cases "load_package_endpoint env st packages t k") (auto simp: flaggable_def)
    then show ?thesis
      using l item by auto
  qed
qed

lemma update_middle:
  "k \<notin> fst ` set xs \<Longrightarrow> AList.update k v (xs @ (k, w) # ys) = xs @ (k, v) # ys"
  by (induction xs) auto

lemma map_of_middle:
  "k \<notin> fst ` set xs \<Longrightarrow> map_of (xs @ (k, w) # ys) k = Some w"
  by (induction xs) auto

lemma endpoints_of_flag_entry:
  "endpoints_of (map (flag_entry env st packages t) index) = endpoints_of index"
  by (simp add: endpoints_of_def flag_entry_def)

lemma endpoint_view_flag_index:
  "endpoint_view (map (flag_index env st packages) seen @ pending)
   = endpoint_view (seen @ pending)"
  by (simp add: endpoint_view_def flag_index_def endpoints_of_flag_entry)

lemma flag_entry_cong:
  "endpoint_view packages = endpoint_view packages'
   \<Longrightarrow> flag_entry env st packages t = flag_entry env st packages' t"
  by (rule ext) (simp add: flag_entry_def load_package_endpoint_cong [of packages packages'])

lemma flaggable_cong:
  "endpoint_view packages = endpoint_view packages'
   \<Longrightarrow> flaggable env st packages t = flaggable env st packages' t"
  by (rule ext) (simp add: flaggable_def load_package_endpoint_cong [of packages packages'])

lemma fst_flag_index [simp]: "fst (flag_index env st packages item) = fst item"
  by (simp add: flag_index_def)

lemma map_fst_flag_index [simp]:
  "map fst (map (flag_index env st packages) seen) = map fst seen"
  by (induction seen) simp_all

lemma flag_types_ok:
  assumes "pk0 = seen @ pending"
    and "distinct (map fst pk0)"
    and "list_all (all_flaggable env st pk0) pending"
  shows "flag_types env st (map (flag_index env st pk0) seen @ pending) pending
         = Inr (map (flag_index env st pk0) pk0)"
  using assms(1,3)
proof (induction pending arbitrary: seen)
  case Nil
  then show ?case by simp
next
  case (Cons item pending)
  obtain t index where item: "item = (t, index)" by (cases item)
  let ?packages = "map (flag_index env st pk0) seen @ (t, index) # pending"
  have "t \<notin> set (map fst seen)"
    using assms(2) Cons.prems(1) item by auto
  then have notin: "t \<notin> fst ` set (map (flag_index env st pk0) seen)"
    using map_fst_flag_index [of env st pk0 seen] by (metis set_map)
  have m: "map_of ?packages t = Some index"
    using notin by (rule map_of_middle)
  have v: "endpoint_view ?packages = endpoint_view pk0"
    using Cons.prems(1) item by (simp add: endpoint_view_flag_index)
  have "list_all (flaggable env st pk0 t) index"
    using Cons.prems(2) item by simp
  then have "list_all (flaggable env st ?packages t) index"
    using flaggable_cong [OF v] by simp
  with m have "flag_entries env st ?packages t [] index
               = Inr ([] @ map (flag_entry env st ?packages t) index)"
    by (intro flag_entries_ok) auto
  then have fe: "flag_entries env st ?packages t [] index
                 = Inr (map (flag_entry env st pk0 t) index)"
    using flag_entry_cong [OF v] by simp
  have u: "AList.update t (map (flag_entry env st pk0 t) index) ?packages
           = map (flag_index env st pk0) (seen @ [(t, index)]) @ pending"
    using notin by (simp add: update_middle flag_index_def)
  have "flag_types env st (map (flag_index env st pk0) (seen @ [(t, index)]) @ pending)
          pending = Inr (map (flag_index env st pk0) pk0)"
    using Cons.prems item by (intro Cons.IH) auto
  then show ?case
    using fe u item by simp
qed

lemma flag_types_error:
  assumes "pk0 = seen @ pending"
    and "distinct (map fst pk0)"
    and "\<not> list_all (all_flaggable env st pk0) pending"
  shows "\<exists>e t index item.
           flag_types env st (map (flag_index env st pk0) seen @ pending) pending = Inl e
           \<and> (t, index) \<in> set pending \<and> item \<in> set index
           \<and> load_package_endpoint env st pk0 t (fst item) = Inl e
           \<and> e \<noteq> AttributeError \<and> e \<noteq> ModuleNotFoundError"
  using assms(1,3)
proof (induction pending arbitrary: seen)
  case Nil
  then show ?case by simp
next
  case (Cons item pending)
  obtain t index where item: "item = (t, index)" by (cases item)
  let ?packages = "map (flag_index env st pk0) seen @ (t, index) # pending"
  have "t \<notin> set (map fst seen)"
    using assms(2) Cons.prems(1) item by auto
  then have notin: "t \<notin> fst ` set (map (flag_index env st pk0) seen)"
    using map_fst_flag_index [of env st pk0 seen] by (metis set_map)
  have m: "map_of ?packages t = Some index"
    using notin by (rule map_of_middle)
  have v: "endpoint_view ?packages = endpoint_view pk0"
    using Cons.prems(1) item by (simp add: endpoint_view_flag_index)
  show ?case
  proof (cases "list_all (flaggable env st pk0 t) index")
    case True
    then have "list_all (flaggable env st ?packages t) index"
      using flaggable_cong [OF v] by simp
    with m have "flag_entries env st ?packages t [] index
                 = Inr ([] @ map (flag_entry env st ?packages t) index)"
      by (intro flag_entries_ok) auto
    then have fe: "flag_entries env st ?packages t [] index
                   = Inr (map (flag_entry env st pk0 t) index)"
      using flag_entry_cong [OF v] by simp
    have u: "AList.update t (map (flag_entry env st pk0 t) index) ?packages
             = map (flag_index env st pk0) (seen @ [(t, index)]) @ pending"
      using notin by (simp add: update_middle flag_index_def)
    have rest: "\<not> list_all (all_flaggable env st pk0) pending"
      using True Cons.prems(2) item by simp
    have "\<exists>e t' index' item'.
            flag_types env st
              (map (flag_index env st pk0) (seen @ [(t, index)]) @ pending) pending = Inl e
            \<and> (t', index') \<in> set pending \<and> item' \<in> set index'
            \<and> load_package_endpoint env st pk0 t' (fst item') = Inl e
            \<and> e \<noteq> AttributeError \<and> e \<noteq> ModuleNotFoundError"
      using Cons.prems(1) item rest by (intro Cons.IH) auto
    then obtain e t' index' item' where
      "flag_types env st
         (map (flag_index env st pk0) (seen @ [(t, index)]) @ pending) pending = Inl e"
      "(t', index') \<in> set pending" "item' \<in> set index'"
      "load_package_endpoint env st pk0 t' (fst item') = Inl e"
      "e \<noteq> AttributeError" "e \<noteq> ModuleNotFoundError"
      by blast
    then show ?thesis
      using fe u item
      by (intro exI [of _ e] exI [of _ t'] exI [of _ index'] exI [of _ item']) simp
  next
    case False
    then have "\<not> list_all (flaggable env st ?packages t) index"
      using flaggable_cong [OF v] by simp
    with m have "\<exists>e item'. flag_entries env st ?packages t [] index = Inl e
                   \<and> item' \<in> set index
                   \<and> load_package_endpoint env st ?packages t (fst item') = Inl e
                   \<and> e \<noteq> AttributeError \<and> e \<noteq> ModuleNotFoundError"
      by (intro flag_entries_error) auto
    then obtain e item' where
      "flag_entries env st ?packages t [] index = Inl e" "item' \<in> set index"
      "load_package_endpoint env st ?packages t (fst item') = Inl e"
      "e \<noteq> AttributeError" "e \<noteq> ModuleNotFoundError"
      by blast
    then show ?thesis
      using item load_package_endpoint_cong [OF v, of env st t "fst item'"]
      by (intro exI [of _ e] exI [of _ t] exI [of _ index] exI [of _ item']) simp
  qed
qed

lemma index_loop_distinct:
  "distinct (map fst acc) \<Longrightarrow> index_loop package_dict acc = Inr packages
   \<Longrightarrow> distinct (map fst packages)"
proof (induction package_dict arbitrary: acc)
  case Nil
  then show ?case by simp
next
  case (Cons item package_dict)
  obtain key val where item: "item = (key, val)" by (cases item)
  from Cons.prems(2) item obtain t where
    "index_loop package_dict (AList.update t val acc) = Inr packages"
    by (auto split: option.splits sum.splits)
  moreover have "distinct (map fst (AList.update t val acc))"
    using Cons.prems(1) by (rule distinct_update)
  ultimately show ?case by (rule Cons.IH [rotated])
qed

lemma load_package_endpoints_index_distinct:
  "load_package_endpoints_index env = Inr packages \<Longrightarrow> distinct (map fst packages)"
  by (auto simp: load_package_endpoints_index_def split: option.splits if_splits sum.splits
      dest: index_loop_distinct [rotated])

lemma flag_installed_packages_ok:
  assumes "distinct (map fst pk0)" "list_all (all_flaggable env st pk0) pk0"
  shows "flag_installed_packages env st pk0 = Inr (map (flag_index env st pk0) pk0)"
  using flag_types_ok [of pk0 "[]" pk0 env st] assms
  by (simp add: flag_installed_packages_def)

lemma flag_installed_packages_error:
  assumes "distinct (map fst pk0)" "\<not> list_all (all_flaggable env st pk0) pk0"
  shows "\<exists>e t index item.
           flag_installed_packages env st pk0 = Inl e
           \<and> (t, index) \<in> set pk0 \<and> item \<in> set index
           \<and> load_package_endpoint env st pk0 t (fst item) = Inl e
           \<and> e \<noteq> AttributeError \<and> e \<noteq> ModuleNotFoundError"
  using flag_types_error [of pk0 "[]" pk0 env st] assms
  by (simp add: flag_installed_packages_def)

lemma map_of_flag_index:
  "map_of (map (flag_index env st pk0) packages) t
   = map_option (map (flag_entry env st pk0 t)) (map_of packages t)"
  by (induction packages) (auto simp: flag_index_def)

lemma endpoint_view_flagged:
  "endpoint_view (map (flag_index env st pk0) pk0) = endpoint_view pk0"
  using endpoint_view_flag_index [of env st pk0 pk0 "[]"] by simp

lemma init_ok:
  assumes "load_package_endpoints_index env = Inr pk0"
    and "list_all (all_flaggable env st pk0) pk0"
  shows "init env st = Inr (map (flag_index env st pk0) pk0)"
  using assms flag_installed_packages_ok [OF load_package_endpoints_index_distinct]
  by (simp add: init_def)

lemma init_error:
  assumes "load_package_endpoints_index env = Inr pk0"
    and "\<not> list_all (all_flaggable env st pk0) pk0"
  shows "\<exists>e t index item.
           init env st = Inl e
           \<and> (t, index) \<in> set pk0 \<and> item \<in> set index
           \<and> load_package_endpoint env st pk0 t (fst item) = Inl e
           \<and> e \<noteq> AttributeError \<and> e \<noteq> ModuleNotFoundError"
  using assms flag_installed_packages_error [OF load_package_endpoints_index_distinct]
  by (simp add: init_def)

lemma init_flagged:
  assumes "load_package_endpoints_index env = Inr pk0"
    and "init env st = Inr packages"
  shows "packages = map (flag_index env st pk0) pk0"
proof (cases "list_all (all_flaggable env st pk0) pk0")
  case True
  from init_ok [OF assms(1) True] assms(2) show ?thesis by simp
next
  case False
  from init_error [OF assms(1) False] assms(2) show ?thesis by auto
qed

subsection \<open>Discovering packages\<close>


lemma map_of_update_other:
  "k \<noteq> k' \<Longrightarrow> map_of (AList.update k v m) k' = map_of m k'"
  by (simp add: update_conv')

lemma endpoint_of_described:
  "map_of (fst (describe_package env st packages t k m)) ''endpoint'' = map_of m ''endpoint''"
  by (auto simp: describe_package_def map_of_update_other split: sum.splits option.splits)

lemma endpoint_of_discover_entry:
  "map_of (snd (discover_entry env st packages t io item)) ''endpoint''
   = map_of (snd item) ''endpoint''"
  by (auto simp: discover_entry_def endpoint_of_described split: sum.splits bool.splits)

lemma endpoints_of_discover_entry:
  "endpoints_of (map (discover_entry env st packages t io) index) = endpoints_of index"
  by (induction index)
     (simp_all add: endpoints_of_def endpoint_of_discover_entry, simp add: discover_entry_def)





lemma fst_discover_entry [simp]:
  "fst (discover_entry env st packages t io item) = fst item"
  by (simp add: discover_entry_def)




text \<open>
  C3, as stated: the stage types enumerate the stages in the order preparation,
  prescreen, dedupe, PDF retrieval, PDF preparation, screen, data. This fails:
  \<^verbatim>\<open>PackageEndpointType\<close> defines \<^verbatim>\<open>dedupe\<close> before \<^verbatim>\<open>prescreen\<close>.
\<close>

theorem C3_prescreen_before_dedupe_counterexample:
  "\<not> in_enum_order [prep, prescreen, dedupe, pdf_get, pdf_prep, screen, data]"
  by (simp add: in_enum_order_def PackageEndpointType_members_def)

text \<open>
  C3, amended: the stage types enumerate the stages in the order preparation, dedupe,
  prescreen, PDF retrieval, PDF preparation, screen, data.
\<close>

theorem C3_stage_order:
  "in_enum_order [prep, dedupe, prescreen, pdf_get, pdf_prep, screen, data]"
  by (simp add: in_enum_order_def PackageEndpointType_members_def)

text \<open>
  C4: when the package index loads, construction returns a registry in which every
  entry of every type carries the key \<^verbatim>\<open>'installed'\<close> with a Boolean that is
  \<^verbatim>\<open>True\<close> exactly when \<^verbatim>\<open>load_package_endpoint\<close> succeeds for that type and
  identifier (so it is \<^verbatim>\<open>False\<close> when loading raises \<^verbatim>\<open>AttributeError\<close> or
  \<^verbatim>\<open>ModuleNotFoundError\<close>); and when loading some entry raises any other
  exception, construction raises: the exception of an entry, and not one of the two
  that are caught.
\<close>

theorem C4_installed_flags:
  assumes "load_package_endpoints_index env = Inr pk0"
  shows "(\<forall>packages t index k entry.
            init env st = Inr packages \<and> map_of packages t = Some index
            \<and> (k, entry) \<in> set index
           \<longrightarrow> (\<exists>b. map_of entry ''installed'' = Some (Bool b)
                  \<and> b = (\<exists>cls. load_package_endpoint env st packages t k = Inr cls)))
       \<and> (\<forall>t index k m e.
            map_of pk0 t = Some index \<and> (k, m) \<in> set index
            \<and> load_package_endpoint env st pk0 t k = Inl e
            \<and> e \<noteq> AttributeError \<and> e \<noteq> ModuleNotFoundError
           \<longrightarrow> (\<exists>e' t' index' item'.
                  init env st = Inl e'
                  \<and> (t', index') \<in> set pk0 \<and> item' \<in> set index'
                  \<and> load_package_endpoint env st pk0 t' (fst item') = Inl e'
                  \<and> e' \<noteq> AttributeError \<and> e' \<noteq> ModuleNotFoundError))"
proof (intro conjI allI impI)
  fix packages t index k entry
  assume a: "init env st = Inr packages \<and> map_of packages t = Some index
             \<and> (k, entry) \<in> set index"
  then have p: "packages = map (flag_index env st pk0) pk0"
    using init_flagged [OF assms] by blast
  with a obtain index0 where
    i: "index = map (flag_entry env st pk0 t) index0"
    by (auto simp: map_of_flag_index)
  with a obtain m where
    e: "entry = AList.update ''installed''
                  (Bool (\<not> isl (load_package_endpoint env st pk0 t k))) m"
    by (auto simp: flag_entry_def)
  have l: "load_package_endpoint env st packages t k
           = load_package_endpoint env st pk0 t k"
    using p by (intro load_package_endpoint_cong) (simp add: endpoint_view_flagged)
  have "(\<not> isl (load_package_endpoint env st pk0 t k))
        = (\<exists>cls. load_package_endpoint env st pk0 t k = Inr cls)"
    by (cases "load_package_endpoint env st pk0 t k") auto
  with e l show "\<exists>b. map_of entry ''installed'' = Some (Bool b)
                  \<and> b = (\<exists>cls. load_package_endpoint env st packages t k = Inr cls)"
    by (simp add: update_conv')
next
  fix t index k m e
  assume a: "map_of pk0 t = Some index \<and> (k, m) \<in> set index
             \<and> load_package_endpoint env st pk0 t k = Inl e
             \<and> e \<noteq> AttributeError \<and> e \<noteq> ModuleNotFoundError"
  then have in_pk0: "(t, index) \<in> set pk0"
    by (auto dest: map_of_SomeD)
  from a have "\<not> flaggable env st pk0 t (k, m)"
    by (simp add: flaggable_def)
  with a have "\<not> all_flaggable env st pk0 (t, index)"
    by (auto simp: list_all_iff)
  with in_pk0 have "\<not> list_all (all_flaggable env st pk0) pk0"
    unfolding list_all_iff by blast
  from init_error [OF assms this]
  show "\<exists>e' t' index' item'.
          init env st = Inl e'
          \<and> (t', index') \<in> set pk0 \<and> item' \<in> set index'
          \<and> load_package_endpoint env st pk0 t' (fst item') = Inl e'
          \<and> e' \<noteq> AttributeError \<and> e' \<noteq> ModuleNotFoundError" .
qed

theorem C4_installed_flags_witness:
  "load_package_endpoints_index example_env
     = Inr [(prep, example_prep_index), (prescreen, example_prescreen_index)]
   \<and> init example_env example_state
     = Inr [(prep,
             [(''exclude_languages'',
               [(''endpoint'', Str ''colrev.prep.ExcludeLanguages''),
                (''installed'', Bool True)]),
              (''absent'',
               [(''endpoint'', Str ''colrev_absent.Absent''),
                (''installed'', Bool False)])]),
            (prescreen,
             [(''scope'',
               [(''endpoint'', Str ''colrev.prescreen.Scope''),
                (''installed'', Bool True)])])]
   \<and> (\<exists>b. map_of [(''endpoint'', Str ''colrev_absent.Absent''), (''installed'', Bool False)]
              ''installed'' = Some (Bool b)
          \<and> b = (\<exists>cls. load_package_endpoint example_env example_state
                          [(prep,
                            [(''exclude_languages'',
                              [(''endpoint'', Str ''colrev.prep.ExcludeLanguages''),
                               (''installed'', Bool True)]),
                             (''absent'',
                              [(''endpoint'', Str ''colrev_absent.Absent''),
                               (''installed'', Bool False)])]),
                           (prescreen,
                            [(''scope'',
                              [(''endpoint'', Str ''colrev.prescreen.Scope''),
                               (''installed'', Bool True)])])]
                          prep ''absent'' = Inr cls))
   \<and> load_package_endpoints_index example_env_syntax_error
     = Inr [(prep, example_prep_index), (prescreen, example_prescreen_index)]
   \<and> load_package_endpoint example_env_syntax_error example_state
        [(prep, example_prep_index), (prescreen, example_prescreen_index)] prep ''absent''
     = Inl (OtherError ''SyntaxError'')
   \<and> (\<exists>e'. init example_env_syntax_error example_state = Inl e'
            \<and> e' \<noteq> AttributeError \<and> e' \<noteq> ModuleNotFoundError)"
proof -
  let ?pk0 = "[(prep, example_prep_index), (prescreen, example_prescreen_index)]"
  let ?absent = "[(''endpoint'', Str ''colrev_absent.Absent''), (''installed'', Bool False)]"
  let ?index = "[(''exclude_languages'',
                  [(''endpoint'', Str ''colrev.prep.ExcludeLanguages''),
                   (''installed'', Bool True)]),
                 (''absent'', ?absent)]"
  let ?packages = "[(prep, ?index),
                    (prescreen,
                     [(''scope'',
                       [(''endpoint'', Str ''colrev.prescreen.Scope''),
                        (''installed'', Bool True)])])]"
  have i: "load_package_endpoints_index example_env = Inr ?pk0"
    by code_simp
  have n: "init example_env example_state = Inr ?packages"
    by code_simp
  have m: "map_of ?packages prep = Some ?index"
    by simp
  have s: "(''absent'', ?absent) \<in> set ?index"
    by simp
  from C4_installed_flags [OF i, of example_state] n m s
  have c1: "\<exists>b. map_of ?absent ''installed'' = Some (Bool b)
              \<and> b = (\<exists>cls. load_package_endpoint example_env example_state ?packages
                              prep ''absent'' = Inr cls)"
    by blast
  have i': "load_package_endpoints_index example_env_syntax_error = Inr ?pk0"
    by code_simp
  have m': "map_of ?pk0 prep = Some example_prep_index"
    by simp
  have s': "(''absent'', [(''endpoint'', Str ''colrev_absent.Absent'')])
            \<in> set example_prep_index"
    by (simp add: example_prep_index_def)
  have l': "load_package_endpoint example_env_syntax_error example_state ?pk0 prep ''absent''
            = Inl (OtherError ''SyntaxError'')"
    by code_simp
  from C4_installed_flags [OF i', of example_state] m' s' l'
  have c2: "\<exists>e'. init example_env_syntax_error example_state = Inl e'
              \<and> e' \<noteq> AttributeError \<and> e' \<noteq> ModuleNotFoundError"
    by blast
  from i n c1 i' l' c2 show ?thesis by blast
qed



text \<open>
  C6, at an index whose endpoint path contains a space: the index loads and
  construction returns, with the path \<^verbatim>\<open>'a b.C'\<close> in the registry. The assertion
  \<^verbatim>\<open>" " not in package_path\<close> looks at the keys of the metadata dictionary, not
  at the path.
\<close>

theorem C6_space_in_endpoint_path_is_accepted:
  "load_package_endpoints_index example_env_space
     = Inr [(prep, [(''abc'', [(''endpoint'', Str ''a b.C'')])])]
   \<and> init example_env_space example_state
     = Inr [(prep, [(''abc'', [(''endpoint'', Str ''a b.C''), (''installed'', Bool False)])])]
   \<and> CHR '' '' \<in> set ''a b.C''"
  by code_simp




text \<open>
  C9: for every \<^verbatim>\<open>split_str\<close> other than \<^verbatim>\<open>'NA'\<close>, \<^verbatim>\<open>main\<close> removes
  the empty string from the comma-split list before anything else. When no part is
  empty the removal raises \<^verbatim>\<open>ValueError\<close> and the trace is empty: no records
  were loaded and no endpoint was run. When a part is empty the first empty part is
  removed, and only then are the records loaded and the endpoints run.
\<close>

theorem C9_main_remove_before_load:
  assumes "split_str \<noteq> ''NA''"
  shows "('''' \<notin> set (split CHR '','' split_str)
            \<longrightarrow> main env split_str = ([], Inl ValueError))
       \<and> ('''' \<in> set (split CHR '','' split_str)
            \<longrightarrow> main env split_str =
                  main_loop env (remove1 '''' (split CHR '','' split_str))
                    (load_records_dict env) (settings_endpoints env) [LoadRecords])"
  using assms by (simp add: main_def list_remove_def)

theorem C9_main_remove_before_load_witness:
  "''a,b'' \<noteq> ''NA''
   \<and> '''' \<notin> set (split CHR '','' ''a,b'')
   \<and> main \<lparr>load_records_dict = (0::nat), settings_endpoints = [''p''],
             loaded_endpoints = [''p''],
             run_prescreen = (\<lambda>name r parts. Inr (Suc r))\<rparr> ''a,b''
       = ([], Inl ValueError)"
  using C9_main_remove_before_load
    [of "''a,b''" "\<lparr>load_records_dict = (0::nat), settings_endpoints = [''p''],
             loaded_endpoints = [''p''],
             run_prescreen = (\<lambda>name r parts. Inr (Suc r))\<rparr>"]
  by simp

subsection \<open>Loading packages: the copy and the heap\<close>

lemma deepcopy_items_props:
  assumes "deepcopy_items h new memo items = Inr (new', copies)"
    and "\<And>a c. map_of memo a = Some c
           \<Longrightarrow> length h \<le> c \<and> c < length h + length new
               \<and> (\<exists>d. heap_get h a = Some (DictObj d) \<and> (h @ new) ! c = DictObj d)"
  shows "(\<exists>ext. new' = new @ ext)
       \<and> list_all2
           (\<lambda>a c. length h \<le> c \<and> c < length h + length new'
                  \<and> (\<exists>d. heap_get h a = Some (DictObj d) \<and> (h @ new') ! c = DictObj d))
           items copies"
  using assms
proof (induction items arbitrary: new memo new' copies)
  case Nil
  then show ?case by simp
next
  case (Cons a rest)
  show ?case
  proof (cases "map_of memo a")
    case (Some copied)
    with Cons.prems(1) obtain copies' where
      r: "deepcopy_items h new memo rest = Inr (new', copies')"
      and c: "copies = copied # copies'"
      by (auto split: sum.splits)
    from Cons.IH [OF r Cons.prems(2)] obtain ext where
      ext: "new' = new @ ext"
      and l: "list_all2
           (\<lambda>a c. length h \<le> c \<and> c < length h + length new'
                  \<and> (\<exists>d. heap_get h a = Some (DictObj d) \<and> (h @ new') ! c = DictObj d))
           rest copies'"
      by blast
    from Cons.prems(2) [OF Some] obtain d where
      "length h \<le> copied" "copied < length h + length new"
      "heap_get h a = Some (DictObj d)" "(h @ new) ! copied = DictObj d"
      by blast
    moreover from this ext have "(h @ new') ! copied = DictObj d"
      by (metis append.assoc length_append nth_append)
    ultimately show ?thesis
      using ext l c by auto
  next
    case None
    with Cons.prems(1) obtain d copies' where
      g: "heap_get h a = Some (DictObj d)"
      and r: "deepcopy_items h (new @ [DictObj d]) ((a, length h + length new) # memo) rest
              = Inr (new', copies')"
      and c: "copies = (length h + length new) # copies'"
      by (auto split: sum.splits option.splits obj.splits)
    have m: "length h \<le> c \<and> c < length h + length (new @ [DictObj d])
             \<and> (\<exists>d'. heap_get h a' = Some (DictObj d')
                      \<and> (h @ new @ [DictObj d]) ! c = DictObj d')"
      if "map_of ((a, length h + length new) # memo) a' = Some c" for a' c
    proof (cases "a' = a")
      case True
      with that have "c = length h + length new" by simp
      with True g show ?thesis
        by (simp add: nth_append)
    next
      case False
      with that have "map_of memo a' = Some c" by simp
      from Cons.prems(2) [OF this] show ?thesis
        by (auto simp: nth_append)
    qed
    from Cons.IH [OF r m] obtain ext where
      ext: "new' = (new @ [DictObj d]) @ ext"
      and l: "list_all2
           (\<lambda>a c. length h \<le> c \<and> c < length h + length new'
                  \<and> (\<exists>d. heap_get h a = Some (DictObj d) \<and> (h @ new') ! c = DictObj d))
           rest copies'"
      by blast
    have "(h @ new') ! (length h + length new) = DictObj d"
      using ext by (simp add: nth_append)
    then show ?thesis
      using ext l c g by auto
  qed
qed


lemma list_all2_copied:
  assumes "list_all2
             (\<lambda>a c. length h \<le> c \<and> c < length h + length new
                    \<and> (\<exists>d. heap_get h a = Some (DictObj d) \<and> (h @ new) ! c = DictObj d))
             items copies"
  shows "list_all (copied_settings h items (h @ new @ [ListObj copies])) copies"
proof -
  have "copied_settings h items (h @ new @ [ListObj copies]) c" if "c \<in> set copies" for c
  proof -
    from that obtain i where i: "i < length copies" "copies ! i = c"
      by (auto simp: in_set_conv_nth)
    from assms have len: "length items = length copies"
      by (rule list_all2_lengthD)
    from list_all2_nthD2 [OF assms i(1)] i(2) len i(1)
    have "items ! i \<in> set items"
      "length h \<le> c \<and> c < length h + length new
       \<and> (\<exists>d. heap_get h (items ! i) = Some (DictObj d) \<and> (h @ new) ! c = DictObj d)"
      by auto
    moreover from this have "(h @ new @ [ListObj copies]) ! c = (h @ new) ! c"
      by (metis append.assoc length_append nth_append)
    ultimately show ?thesis
      by (auto simp: copied_settings_def)
  qed
  then show ?thesis by (simp add: list_all_iff)
qed

lemma deepcopy_props:
  assumes "deepcopy h selected_packages = Inr (h1, copy)"
  shows "\<exists>items copies.
           heap_get h selected_packages = Some (ListObj items)
           \<and> take (length h) h1 = h
           \<and> heap_get h1 copy = Some (ListObj copies)
           \<and> list_all (copied_settings h items h1) copies"
proof -
  from assms obtain items new copies where
    g: "heap_get h selected_packages = Some (ListObj items)"
    and d: "deepcopy_items h [] [] items = Inr (new, copies)"
    and h1: "h1 = h @ new @ [ListObj copies]"
    and c: "copy = length h + length new"
    by (auto simp: deepcopy_def split: option.splits obj.splits sum.splits)
  from deepcopy_items_props [OF d] have
    "list_all2
       (\<lambda>a c. length h \<le> c \<and> c < length h + length new
              \<and> (\<exists>d. heap_get h a = Some (DictObj d) \<and> (h @ new) ! c = DictObj d))
       items copies"
    by simp
  then have "list_all (copied_settings h items h1) copies"
    unfolding h1 by (rule list_all2_copied)
  moreover have "heap_get h1 copy = Some (ListObj copies)"
    using h1 c by (simp add: heap_get_def nth_append)
  ultimately show ?thesis
    using g h1 by simp
qed

lemma list_all_update:
  "P (k, v) \<Longrightarrow> list_all P al \<Longrightarrow> list_all P (AList.update k v al)"
  by (induction al) auto

lemma list_all_delete:
  "list_all P al \<Longrightarrow> list_all P (AList.delete k al)"
  by (induction al) auto

lemma get_package_heap:
  "get_package env packages t ign a st pd = (st', r) \<Longrightarrow> heap st' = heap st"
  by (auto simp: get_package_def Let_def
      split: option.splits obj.splits pyval.splits sum.splits if_splits)

lemma get_package_inv:
  assumes "get_package env packages t ign a st pd = (st', Inr pd')"
    and "copied_settings h items (heap st) a"
    and "list_all (entry_ok h items (heap st)) pd"
    and "distinct (map fst pd)"
  shows "list_all (entry_ok h items (heap st)) pd' \<and> distinct (map fst pd')"
proof -
  from assms(1) obtain d name where
    d: "heap_get (heap st) a = Some (DictObj d)"
    and n: "map_of d ''endpoint'' = Some (Str name)"
    by (auto simp: get_package_def split: option.splits obj.splits pyval.splits)
  have ok: "entry_ok h items (heap st)
              (lower name, \<lparr>settings = a, endpoint = ep, custom_flag = cf\<rparr>)" for ep cf
    using assms(2) d n by (auto simp: entry_ok_def heap_get_def split: if_splits)
  let ?pd1 = "AList.update (lower name)
                \<lparr>settings = a, endpoint = None, custom_flag = False\<rparr> pd"
  have pd1: "list_all (entry_ok h items (heap st)) ?pd1" "distinct (map fst ?pd1)"
    using ok assms(3,4) by (auto intro: list_all_update distinct_update)
  have "pd' = ?pd1 \<or> pd' = AList.delete (lower name) ?pd1
        \<or> (\<exists>ep cf. pd' = AList.update (lower name)
                            \<lparr>settings = a, endpoint = ep, custom_flag = cf\<rparr> ?pd1)"
    using assms(1) d n
    by (auto simp: get_package_def Let_def
        split: option.splits sum.splits if_splits)
  then show ?thesis
    using pd1 ok assms(3,4)
    by (auto intro: list_all_update list_all_delete distinct_update distinct_delete)
qed

lemma get_packages_loop_heap:
  "get_packages_loop env packages t ign copies st pd = (st', r) \<Longrightarrow> heap st' = heap st"
proof (induction copies arbitrary: st pd)
  case Nil
  then show ?case by simp
next
  case (Cons a copies)
  obtain st1 r1 where g: "get_package env packages t ign a st pd = (st1, r1)"
    by (cases "get_package env packages t ign a st pd")
  then have h: "heap st1 = heap st" by (rule get_package_heap)
  show ?case
  proof (cases r1)
    case (Inl e)
    with Cons.prems g h show ?thesis by simp
  next
    case (Inr pd1)
    with Cons.prems g have "get_packages_loop env packages t ign copies st1 pd1 = (st', r)"
      by simp
    from Cons.IH [OF this] h show ?thesis by simp
  qed
qed

lemma get_packages_loop_inv:
  assumes "get_packages_loop env packages t ign copies st pd = (st', Inr pd')"
    and "list_all (copied_settings h items (heap st)) copies"
    and "list_all (entry_ok h items (heap st)) pd"
    and "distinct (map fst pd)"
  shows "list_all (entry_ok h items (heap st)) pd' \<and> distinct (map fst pd')"
  using assms
proof (induction copies arbitrary: st pd)
  case Nil
  then show ?case by simp
next
  case (Cons a copies)
  obtain st1 r1 where g: "get_package env packages t ign a st pd = (st1, r1)"
    by (cases "get_package env packages t ign a st pd")
  then have h: "heap st1 = heap st" by (rule get_package_heap)
  from Cons.prems(1) g obtain pd1 where r1: "r1 = Inr pd1"
    and l: "get_packages_loop env packages t ign copies st1 pd1 = (st', Inr pd')"
    by (cases r1) auto
  from Cons.prems(2) have a: "copied_settings h items (heap st) a"
    and c: "list_all (copied_settings h items (heap st)) copies"
    by simp_all
  from get_package_inv [OF g [unfolded r1] a Cons.prems(3,4)]
  have "list_all (entry_ok h items (heap st)) pd1" "distinct (map fst pd1)"
    by simp_all
  with Cons.IH [of st1 pd1] l c h show ?case by simp
qed

lemma get_packages_dict_heap:
  assumes "get_packages_dict env packages selected_packages t ign st = (st1, r)"
  shows "take (length (heap st)) (heap st1) = heap st"
proof (cases "deepcopy (heap st) selected_packages")
  case (Inl e)
  with assms show ?thesis by (simp add: get_packages_dict_def)
next
  case (Inr p)
  obtain h1 copy where p: "p = (h1, copy)" by (cases p)
  from deepcopy_props [OF Inr [unfolded p]] obtain copies where
    t: "take (length (heap st)) h1 = heap st"
    and c: "heap_get h1 copy = Some (ListObj copies)"
    by blast
  from assms Inr p c have
    "get_packages_loop env packages t ign copies (st\<lparr>heap := h1\<rparr>) [] = (st1, r)"
    by (simp add: get_packages_dict_def)
  from get_packages_loop_heap [OF this] t show ?thesis by simp
qed

lemma get_packages_dict_inv:
  assumes "get_packages_dict env packages selected_packages t ign st = (st1, Inr pd)"
  shows "\<exists>items. heap_get (heap st) selected_packages = Some (ListObj items)
           \<and> list_all (entry_ok (heap st) items (heap st1)) pd
           \<and> distinct (map fst pd)"
proof (cases "deepcopy (heap st) selected_packages")
  case (Inl e)
  with assms show ?thesis by (simp add: get_packages_dict_def)
next
  case (Inr p)
  obtain h1 copy where p: "p = (h1, copy)" by (cases p)
  from deepcopy_props [OF Inr [unfolded p]] obtain items copies where
    i: "heap_get (heap st) selected_packages = Some (ListObj items)"
    and c: "heap_get h1 copy = Some (ListObj copies)"
    and k: "list_all (copied_settings (heap st) items h1) copies"
    by blast
  from assms Inr p c have
    l: "get_packages_loop env packages t ign copies (st\<lparr>heap := h1\<rparr>) [] = (st1, Inr pd)"
    by (simp add: get_packages_dict_def)
  from get_packages_loop_heap [OF l] have h: "heap st1 = h1" by simp
  from get_packages_loop_inv [OF l, of "heap st" items] k
  have "list_all (entry_ok (heap st) items h1) pd \<and> distinct (map fst pd)"
    by simp
  with i h show ?thesis by auto
qed

lemma drop_broken_package_heap:
  "drop_broken_package env details ign item st pd = (st', r) \<Longrightarrow> heap st' = heap st"
  by (cases item)
     (auto simp: drop_broken_package_def split: option.splits sum.splits if_splits)

lemma entry_ok_settings:
  "entry_ok h items h1 (k, val) \<Longrightarrow> settings val' = settings val
   \<Longrightarrow> entry_ok h items h1 (k, val')"
  by (simp add: entry_ok_def)

lemma drop_broken_package_inv:
  assumes "drop_broken_package env details ign item st pd = (st', Inr pd')"
    and "entry_ok h items h1 item"
    and "list_all (entry_ok h items h1) pd"
    and "distinct (map fst pd)"
  shows "list_all (entry_ok h items h1) pd' \<and> distinct (map fst pd')"
proof -
  obtain k val where item: "item = (k, val)" by (cases item)
  from assms(1) item have
    "pd' = pd \<or> (\<exists>ep cf. pd' = AList.update k (val\<lparr>endpoint := ep, custom_flag := cf\<rparr>) pd)"
    by (auto simp: drop_broken_package_def split: option.splits sum.splits if_splits)
  moreover have "entry_ok h items h1 (k, val\<lparr>endpoint := ep, custom_flag := cf\<rparr>)" for ep cf
    using assms(2) item by (auto intro: entry_ok_settings)
  ultimately show ?thesis
    using assms(3,4) by (auto intro: list_all_update distinct_update)
qed

lemma drop_broken_loop_heap:
  "drop_broken_loop env details ign rest st pd = (st', r) \<Longrightarrow> heap st' = heap st"
proof (induction rest arbitrary: st pd)
  case Nil
  then show ?case by simp
next
  case (Cons item rest)
  obtain st1 r1 where g: "drop_broken_package env details ign item st pd = (st1, r1)"
    by (cases "drop_broken_package env details ign item st pd")
  then have h: "heap st1 = heap st" by (rule drop_broken_package_heap)
  show ?case
  proof (cases r1)
    case (Inl e)
    with Cons.prems g h show ?thesis by simp
  next
    case (Inr pd1)
    with Cons.prems g have "drop_broken_loop env details ign rest st1 pd1 = (st', r)"
      by simp
    from Cons.IH [OF this] h show ?thesis by simp
  qed
qed

lemma drop_broken_loop_inv:
  assumes "drop_broken_loop env details ign rest st pd = (st', Inr pd')"
    and "list_all (entry_ok h items h1) rest"
    and "list_all (entry_ok h items h1) pd"
    and "distinct (map fst pd)"
  shows "list_all (entry_ok h items h1) pd' \<and> distinct (map fst pd')"
  using assms
proof (induction rest arbitrary: st pd)
  case Nil
  then show ?case by simp
next
  case (Cons item rest)
  obtain st1 r1 where g: "drop_broken_package env details ign item st pd = (st1, r1)"
    by (cases "drop_broken_package env details ign item st pd")
  from Cons.prems(1) g obtain pd1 where r1: "r1 = Inr pd1"
    and l: "drop_broken_loop env details ign rest st1 pd1 = (st', Inr pd')"
    by (cases r1) auto
  from Cons.prems(2) have a: "entry_ok h items h1 item"
    and c: "list_all (entry_ok h items h1) rest"
    by simp_all
  from drop_broken_package_inv [OF g [unfolded r1] a Cons.prems(3,4)]
  have "list_all (entry_ok h items h1) pd1" "distinct (map fst pd1)"
    by simp_all
  with Cons.IH [of st1 pd1] l c show ?case by simp
qed

lemma drop_broken_packages_heap:
  "drop_broken_packages env pd t ign st = (st', r) \<Longrightarrow> heap st' = heap st"
  by (auto simp: drop_broken_packages_def split: option.splits
      dest: drop_broken_loop_heap)

lemma drop_broken_packages_inv:
  assumes "drop_broken_packages env pd t ign st = (st', Inr pd')"
    and "list_all (entry_ok h items h1) pd"
    and "distinct (map fst pd)"
  shows "list_all (entry_ok h items h1) pd' \<and> distinct (map fst pd')"
proof -
  from assms(1) obtain details where
    "drop_broken_loop env details ign pd st pd = (st', Inr pd')"
    by (auto simp: drop_broken_packages_def split: option.splits)
  from drop_broken_loop_inv [OF this assms(2) assms(2) assms(3)] show ?thesis .
qed


lemma load_package_prefix:
  assumes "load_package env details t operation inst item st = (st', r)"
    and "n \<le> settings (snd item)"
  shows "take n (heap st') = take n (heap st)"
  using assms
  by (cases item)
     (auto simp: load_package_def Let_def str_eq_PackageEndpointType_def
        split: option.splits sum.splits if_splits obj.splits prod.splits)

lemma load_loop_prefix:
  assumes "load_loop env details t operation inst rest st acc = (st', r)"
    and "list_all (\<lambda>item. n \<le> settings (snd item)) rest"
  shows "take n (heap st') = take n (heap st)"
  using assms
proof (induction rest arbitrary: st acc)
  case Nil
  then show ?case by simp
next
  case (Cons item rest)
  obtain st1 r1 where g: "load_package env details t operation inst item st = (st1, r1)"
    by (cases "load_package env details t operation inst item st")
  from Cons.prems(2) have "n \<le> settings (snd item)" by simp
  from load_package_prefix [OF g this] have h: "take n (heap st1) = take n (heap st)" .
  show ?case
  proof (cases r1)
    case (Inl e)
    with Cons.prems g h show ?thesis by simp
  next
    case (Inr v)
    with Cons.prems g have
      "load_loop env details t operation inst rest st1 (acc @ [(fst item, v)]) = (st', r)"
      by simp
    from Cons.IH [OF this] Cons.prems(2) h show ?thesis by simp
  qed
qed

lemma entry_ok_new: "entry_ok h items h1 item \<Longrightarrow> length h \<le> settings (snd item)"
  by (simp add: entry_ok_def copied_settings_def)

















text \<open>
  C2, as stated: an identifier that is not in the registry is imported as a module when
  no file of that name exists in the current directory. This fails when
  \<^verbatim>\<open>ignore_not_available\<close> is set: the identifier \<^verbatim>\<open>module_prep\<close> is not in the
  registry, there is no file \<^verbatim>\<open>module_prep.py\<close> and the module can be imported, yet
  the loop body, and with it \<^verbatim>\<open>load_packages\<close>, raises
  \<^verbatim>\<open>MissingDependencyError\<close>.
\<close>

theorem C2_ignore_not_available_counterexample:
  "heap_get (heap example_state) 2 = Some (DictObj [(''endpoint'', Str ''module_prep'')])
   \<and> map_of example_registry prep = Some example_prep_flagged
   \<and> map_of example_prep_flagged (lower ''module_prep'') = None
   \<and> \<not> is_file example_env (lower ''module_prep'' @ ''.py'')
   \<and> import_module example_env (sys_path example_state) (lower ''module_prep'') None
       = Inr (PyObj ''module_prep'')
   \<and> get_package example_env example_registry prep True 2 example_state []
       = (example_state, Inl MissingDependencyError)
   \<and> snd (load_packages example_env example_registry prep 4 (Operation ''prep'') True True
             example_state)
       = Inl MissingDependencyError"
  by code_simp

text \<open>
  C2, amended, for one selected package whose \<^verbatim>\<open>'endpoint'\<close> is a string, with the
  lowercased string as identifier and a stage type of the registry. An identifier of
  the registry whose \<^verbatim>\<open>'installed'\<close> is false is skipped with a message on the
  console and gets no endpoint; one whose \<^verbatim>\<open>'installed'\<close> is true gets the result of
  \<^verbatim>\<open>load_package_endpoint\<close> and no custom flag. When \<^verbatim>\<open>ignore_not_available\<close> is
  false: an identifier that is not in the registry is imported as a module when there
  is no file \<^verbatim>\<open><identifier>.py\<close> (a \<^verbatim>\<open>ModuleNotFoundError\<close> becoming
  \<^verbatim>\<open>MissingDependencyError\<close>), and when there is such a file, \<^verbatim>\<open>'.'\<close> is
  appended to \<^verbatim>\<open>sys.path\<close> and the identifier is imported from there; both results
  carry the custom flag.
\<close>

theorem C2_loading_precedence:
  assumes "heap_get (heap st) selected_package = Some (DictObj d)"
    and "map_of d ''endpoint'' = Some (Str name)"
    and "map_of packages package_type = Some index"
    and "package_identifier = lower name"
    and "fresh = \<lparr>settings = selected_package, endpoint = None, custom_flag = False\<rparr>"
  shows "(\<forall>entry installed.
            map_of index package_identifier = Some entry
            \<and> map_of entry ''installed'' = Some installed \<and> \<not> truthy installed
           \<longrightarrow> get_package env packages package_type ignore_not_available selected_package
                  st packages_dict
               = (st\<lparr>stdout := stdout st @
                       [''Cannot load '' @ package_identifier @ '' (not installed)'']\<rparr>,
                  Inr (AList.update package_identifier fresh packages_dict)))
       \<and> (\<forall>entry installed.
            map_of index package_identifier = Some entry
            \<and> map_of entry ''installed'' = Some installed \<and> truthy installed
           \<longrightarrow> get_package env packages package_type ignore_not_available selected_package
                  st packages_dict
               = (st,
                  case load_package_endpoint env st packages package_type
                         package_identifier of
                    Inl e \<Rightarrow> Inl e
                  | Inr package_class \<Rightarrow>
                      Inr (AList.update package_identifier
                             (fresh\<lparr>endpoint := Some package_class\<rparr>) packages_dict)))
       \<and> (map_of index package_identifier = None \<and> \<not> ignore_not_available
            \<and> \<not> is_file env (package_identifier @ ''.py'')
           \<longrightarrow> get_package env packages package_type ignore_not_available selected_package
                  st packages_dict
               = (st,
                  case import_module env (sys_path st) package_identifier None of
                    Inl e \<Rightarrow>
                      Inl (if e = ModuleNotFoundError then MissingDependencyError else e)
                  | Inr imported \<Rightarrow>
                      Inr (AList.update package_identifier
                             (fresh\<lparr>endpoint := Some imported, custom_flag := True\<rparr>)
                             packages_dict)))
       \<and> (map_of index package_identifier = None \<and> \<not> ignore_not_available
            \<and> is_file env (package_identifier @ ''.py'')
           \<longrightarrow> get_package env packages package_type ignore_not_available selected_package
                  st packages_dict
               = (st\<lparr>sys_path := sys_path st @ [''.'']\<rparr>,
                  case import_module env (sys_path st @ [''.'']) package_identifier
                         (Some ''.'') of
                    Inl e \<Rightarrow> Inl e
                  | Inr imported \<Rightarrow>
                      Inr (AList.update package_identifier
                             (fresh\<lparr>endpoint := Some imported, custom_flag := True\<rparr>)
                             packages_dict)))"
  using assms
  by (auto simp: get_package_def Let_def split: sum.splits)


theorem C2_loading_precedence_witness:
  "get_package example_env example_registry prep False 0 example_state []
     = (example_state,
        Inr [(''exclude_languages'',
              \<lparr>settings = 0, endpoint = Some (PyObj ''colrev.prep.ExcludeLanguages''),
               custom_flag = False\<rparr>)])
   \<and> get_package example_env example_registry prep False 1 example_state []
     = (example_state\<lparr>stdout := stdout example_state @
                         [''Cannot load '' @ ''absent'' @ '' (not installed)'']\<rparr>,
        Inr [(''absent'', \<lparr>settings = 1, endpoint = None, custom_flag = False\<rparr>)])
   \<and> get_package example_env example_registry prep False 2 example_state []
     = (example_state,
        Inr [(''module_prep'',
              \<lparr>settings = 2, endpoint = Some (PyObj ''module_prep''),
               custom_flag = True\<rparr>)])
   \<and> get_package example_env example_registry prep False 3 example_state []
     = (example_state\<lparr>sys_path := sys_path example_state @ [''.'']\<rparr>,
        Inr [(''custom_prep'',
              \<lparr>settings = 3, endpoint = Some (PyObj ''custom_prep''),
               custom_flag = True\<rparr>)])"
proof -
  have r: "map_of example_registry prep = Some example_prep_flagged"
    by (simp add: example_registry_def)
  have h0: "heap_get (heap example_state) 0
            = Some (DictObj [(''endpoint'', Str ''Exclude_Languages''),
                             (''languages'', Str ''en'')])"
    by code_simp
  have n0: "map_of [(''endpoint'', Str ''Exclude_Languages''), (''languages'', Str ''en'')]
              ''endpoint'' = Some (Str ''Exclude_Languages'')"
    by simp
  have l0: "''exclude_languages'' = lower ''Exclude_Languages''"
    by code_simp
  have e0: "map_of example_prep_flagged ''exclude_languages''
            = Some [(''endpoint'', Str ''colrev.prep.ExcludeLanguages''),
                    (''installed'', Bool True)]"
    by code_simp
  have c0: "load_package_endpoint example_env example_state example_registry prep
              ''exclude_languages'' = Inr (PyObj ''colrev.prep.ExcludeLanguages'')"
    by code_simp
  from C2_loading_precedence [OF h0 n0 r l0 refl, of example_env False "[]"] e0
  have "get_package example_env example_registry prep False 0 example_state []
        = (example_state,
           case load_package_endpoint example_env example_state example_registry prep
                  ''exclude_languages'' of
             Inl e \<Rightarrow> Inl e
           | Inr package_class \<Rightarrow>
               Inr (AList.update ''exclude_languages''
                      (\<lparr>settings = 0, endpoint = None, custom_flag = False\<rparr>
                         \<lparr>endpoint := Some package_class\<rparr>) []))"
    by simp
  with c0 have g0: "get_package example_env example_registry prep False 0 example_state []
     = (example_state,
        Inr [(''exclude_languages'',
              \<lparr>settings = 0, endpoint = Some (PyObj ''colrev.prep.ExcludeLanguages''),
               custom_flag = False\<rparr>)])"
    by simp
  have h1: "heap_get (heap example_state) 1 = Some (DictObj [(''endpoint'', Str ''absent'')])"
    by code_simp
  have n1: "map_of [(''endpoint'', Str ''absent'')] ''endpoint'' = Some (Str ''absent'')"
    by simp
  have l1: "''absent'' = lower ''absent''"
    by code_simp
  have e1: "map_of example_prep_flagged ''absent''
            = Some [(''endpoint'', Str ''colrev_absent.Absent''), (''installed'', Bool False)]"
    by code_simp
  from C2_loading_precedence [OF h1 n1 r l1 refl, of example_env False "[]"] e1
  have g1: "get_package example_env example_registry prep False 1 example_state []
     = (example_state\<lparr>stdout := stdout example_state @
                         [''Cannot load '' @ ''absent'' @ '' (not installed)'']\<rparr>,
        Inr [(''absent'', \<lparr>settings = 1, endpoint = None, custom_flag = False\<rparr>)])"
    by simp
  have h2: "heap_get (heap example_state) 2
            = Some (DictObj [(''endpoint'', Str ''module_prep'')])"
    by code_simp
  have n2: "map_of [(''endpoint'', Str ''module_prep'')] ''endpoint''
            = Some (Str ''module_prep'')"
    by simp
  have l2: "''module_prep'' = lower ''module_prep''"
    by code_simp
  have e2: "map_of example_prep_flagged ''module_prep'' = None"
    by code_simp
  have f2: "\<not> is_file example_env (''module_prep'' @ ''.py'')"
    by code_simp
  have c2: "import_module example_env (sys_path example_state) ''module_prep'' None
            = Inr (PyObj ''module_prep'')"
    by code_simp
  from C2_loading_precedence [OF h2 n2 r l2 refl, of example_env False "[]"] e2 f2
  have "get_package example_env example_registry prep False 2 example_state []
        = (example_state,
           case import_module example_env (sys_path example_state) ''module_prep'' None of
             Inl e \<Rightarrow> Inl (if e = ModuleNotFoundError then MissingDependencyError else e)
           | Inr imported \<Rightarrow>
               Inr (AList.update ''module_prep''
                      (\<lparr>settings = 2, endpoint = None, custom_flag = False\<rparr>
                         \<lparr>endpoint := Some imported, custom_flag := True\<rparr>) []))"
    by simp
  with c2 have g2: "get_package example_env example_registry prep False 2 example_state []
     = (example_state,
        Inr [(''module_prep'',
              \<lparr>settings = 2, endpoint = Some (PyObj ''module_prep''),
               custom_flag = True\<rparr>)])"
    by simp
  have h3: "heap_get (heap example_state) 3
            = Some (DictObj [(''endpoint'', Str ''custom_prep'')])"
    by code_simp
  have n3: "map_of [(''endpoint'', Str ''custom_prep'')] ''endpoint''
            = Some (Str ''custom_prep'')"
    by simp
  have l3: "''custom_prep'' = lower ''custom_prep''"
    by code_simp
  have e3: "map_of example_prep_flagged ''custom_prep'' = None"
    by code_simp
  have f3: "is_file example_env (''custom_prep'' @ ''.py'')"
    by code_simp
  have c3: "import_module example_env (sys_path example_state @ [''.'']) ''custom_prep''
              (Some ''.'') = Inr (PyObj ''custom_prep'')"
    by code_simp
  from C2_loading_precedence [OF h3 n3 r l3 refl, of example_env False "[]"] e3 f3
  have "get_package example_env example_registry prep False 3 example_state []
        = (example_state\<lparr>sys_path := sys_path example_state @ [''.'']\<rparr>,
           case import_module example_env (sys_path example_state @ [''.''])
                  ''custom_prep'' (Some ''.'') of
             Inl e \<Rightarrow> Inl e
           | Inr imported \<Rightarrow>
               Inr (AList.update ''custom_prep''
                      (\<lparr>settings = 3, endpoint = None, custom_flag = False\<rparr>
                         \<lparr>endpoint := Some imported, custom_flag := True\<rparr>) []))"
    by simp
  with c3 have g3: "get_package example_env example_registry prep False 3 example_state []
     = (example_state\<lparr>sys_path := sys_path example_state @ [''.'']\<rparr>,
        Inr [(''custom_prep'',
              \<lparr>settings = 3, endpoint = Some (PyObj ''custom_prep''),
               custom_flag = True\<rparr>)])"
    by simp
  from g0 g1 g2 g3 show ?thesis by blast
qed

text \<open>
  C8: whatever \<^verbatim>\<open>load_packages\<close> does, returning or raising, every object that was
  on the heap when it was called is unchanged afterwards: the caller's list of
  selected packages and every settings dictionary in it among them. The settings that
  the constructors receive, and may change, are the copies.
\<close>

theorem C8_load_packages_frame:
  "take (length (heap st))
     (heap (fst (load_packages env packages package_type selected_packages operation
                   ignore_not_available instantiate_objects st)))
   = heap st"
proof (cases "package_type \<notin> set (map fst package_type_overview)")
  case True
  then show ?thesis by (simp add: load_packages_def)
next
  case False
  obtain st1 r1 where
    g: "get_packages_dict env packages selected_packages package_type
          ignore_not_available st = (st1, r1)"
    by (cases "get_packages_dict env packages selected_packages package_type
                 ignore_not_available st")
  from get_packages_dict_heap [OF g] have h1: "take (length (heap st)) (heap st1) = heap st" .
  show ?thesis
  proof (cases r1)
    case (Inl e)
    with False g h1 show ?thesis by (simp add: load_packages_def)
  next
    case (Inr pd)
    from get_packages_dict_inv [OF g [unfolded Inr]] obtain items where
      pd: "list_all (entry_ok (heap st) items (heap st1)) pd" "distinct (map fst pd)"
      by blast
    obtain st2 r2 where
      d: "drop_broken_packages env pd package_type ignore_not_available st1 = (st2, r2)"
      by (cases "drop_broken_packages env pd package_type ignore_not_available st1")
    from drop_broken_packages_heap [OF d] have h2: "heap st2 = heap st1" .
    show ?thesis
    proof (cases r2)
      case (Inl e)
      with False g Inr d h1 h2 show ?thesis by (simp add: load_packages_def)
    next
      case pd2: (Inr pd')
      from drop_broken_packages_inv [OF d [unfolded pd2] pd]
      have ok: "list_all (entry_ok (heap st) items (heap st1)) pd'"
        by simp
      then have new: "list_all (\<lambda>item. length (heap st) \<le> settings (snd item)) pd'"
        by (auto simp: list_all_iff dest: entry_ok_new)
      show ?thesis
      proof (cases "map_of package_type_overview package_type")
        case None
        with False g Inr d pd2 h1 h2 show ?thesis by (simp add: load_packages_def)
      next
        case (Some details)
        obtain st3 r3 where
          l: "load_loop env details package_type operation instantiate_objects pd' st2 []
              = (st3, r3)"
          by (cases "load_loop env details package_type operation instantiate_objects
                       pd' st2 []")
        from load_loop_prefix [OF l new] h2 h1
        have "take (length (heap st)) (heap st3) = heap st" by simp
        with False g Inr d pd2 Some l show ?thesis by (simp add: load_packages_def)
      qed
    qed
  qed
qed

theorem C8_load_packages_frame_witness:
  "take (length (heap example_state))
     (heap (fst (load_packages example_env example_registry prep 4 (Operation ''prep'')
                   False True example_state)))
   = heap example_state
   \<and> heap (fst (load_packages example_env example_registry prep 4 (Operation ''prep'')
                   False True example_state)) ! 6
     = DictObj [(''endpoint'', Str ''Exclude_Languages''), (''languages'', Str ''en''),
                (''applied'', Bool True)]"
proof -
  have "heap (fst (load_packages example_env example_registry prep 4 (Operation ''prep'')
                     False True example_state)) ! 6
        = DictObj [(''endpoint'', Str ''Exclude_Languages''), (''languages'', Str ''en''),
                   (''applied'', Bool True)]"
    by code_simp
  with C8_load_packages_frame [of example_state example_env example_registry prep 4
         "Operation ''prep''" False True]
  show ?thesis by blast
qed

end
